theory Spec2Isabelle
  imports Complex_Main "HOL-Library.Word"
begin

unbundle bit_operations_syntax

section \<open>Python values and exceptions\<close>

text \<open>
  The converter is Python. Every exception the modelled code can raise is a value of
  \<open>error\<close>; a function that can raise returns \<open>error + 'a\<close> with \<open>Inl\<close> the exception.
  \<open>RecursionError\<close> is what the interpreter raises when \<open>FragRef.resolve\<close> recurses
  past its limit; \<open>TruncatedDataError\<close> is the cursor's failure on a read past the end;
  \<open>ZlibError\<close> stands for \<open>zlib.error\<close>.
\<close>

datatype error =
    AssertionError
  | KeyError
  | IndexError
  | TypeError
  | ValueError
  | AttributeError
  | OverflowError
  | RecursionError
  | TruncatedDataError
  | ZlibError

type_synonym byte = "8 word"

section \<open>The byte cursor (buffer.py)\<close>

text \<open>
  Modelled from the spec: \<open>buffer.py\<close> (class \<open>Buffer\<close>) is not among the sources.
  Section 4.2 of the specification describes it: read N bytes and advance; fixed-width
  little-endian unsigned and signed integers and IEEE floats, singly or in runs of N;
  get and set the absolute position; relative advance (\<open>b += n\<close>); a read that would
  exceed the buffer fails with \<open>TruncatedDataError\<close>. Floats are kept as their 32-bit
  patterns.
\<close>

record buffer =
  data :: "byte list"
  pos :: nat

definition Buffer :: "byte list \<Rightarrow> buffer" where
  "Buffer d = \<lparr>data = d, pos = 0\<rparr>"

definition read :: "buffer \<Rightarrow> nat \<Rightarrow> error + (byte list \<times> buffer)" where
  "read b n =
     (if pos b + n \<le> length (data b)
      then Inr (take n (drop (pos b) (data b)), b\<lparr>pos := pos b + n\<rparr>)
      else Inl TruncatedDataError)"

definition skip :: "buffer \<Rightarrow> nat \<Rightarrow> buffer" where
  "skip b n = b\<lparr>pos := pos b + n\<rparr>"

fun le_nat :: "byte list \<Rightarrow> nat" where
  "le_nat [] = 0"
| "le_nat (x # xs) = unat x + 256 * le_nat xs"

definition signed_of :: "nat \<Rightarrow> nat \<Rightarrow> int" where
  "signed_of bits n = (if n < 2 ^ (bits - 1) then int n else int n - 2 ^ bits)"

definition uint_b :: "buffer \<Rightarrow> error + (nat \<times> buffer)" where
  "uint_b b = (case read b 4 of Inl e \<Rightarrow> Inl e | Inr (bs, b') \<Rightarrow> Inr (le_nat bs, b'))"

definition int_b :: "buffer \<Rightarrow> error + (int \<times> buffer)" where
  "int_b b = (case read b 4 of Inl e \<Rightarrow> Inl e | Inr (bs, b') \<Rightarrow> Inr (signed_of 32 (le_nat bs), b'))"

definition ushort_b :: "buffer \<Rightarrow> error + (nat \<times> buffer)" where
  "ushort_b b = (case read b 2 of Inl e \<Rightarrow> Inl e | Inr (bs, b') \<Rightarrow> Inr (le_nat bs, b'))"

definition short_b :: "buffer \<Rightarrow> error + (int \<times> buffer)" where
  "short_b b = (case read b 2 of Inl e \<Rightarrow> Inl e | Inr (bs, b') \<Rightarrow> Inr (signed_of 16 (le_nat bs), b'))"

definition char_b :: "buffer \<Rightarrow> error + (int \<times> buffer)" where
  "char_b b = (case read b 1 of Inl e \<Rightarrow> Inl e | Inr (bs, b') \<Rightarrow> Inr (signed_of 8 (le_nat bs), b'))"

definition float_b :: "buffer \<Rightarrow> error + (32 word \<times> buffer)" where
  "float_b b = (case read b 4 of Inl e \<Rightarrow> Inl e | Inr (bs, b') \<Rightarrow> Inr (word_of_nat (le_nat bs), b'))"

text \<open>A run of \<open>n\<close> values read by the same reader, as \<open>b.uint(n)\<close> is.\<close>

fun run_b :: "(buffer \<Rightarrow> error + ('a \<times> buffer)) \<Rightarrow> nat \<Rightarrow> buffer \<Rightarrow> error + ('a list \<times> buffer)" where
  "run_b rd 0 b = Inr ([], b)"
| "run_b rd (Suc n) b =
     (case rd b of
        Inl e \<Rightarrow> Inl e
      | Inr (x, b1) \<Rightarrow>
          (case run_b rd n b1 of
             Inl e \<Rightarrow> Inl e
           | Inr (xs, b2) \<Rightarrow> Inr (x # xs, b2)))"

text \<open>Runs of a fixed length that the source unpacks at once (\<open>a, b, c = b.uint(3)\<close>).\<close>

definition run2 :: "(buffer \<Rightarrow> error + ('a \<times> buffer)) \<Rightarrow> buffer \<Rightarrow> error + (('a \<times> 'a) \<times> buffer)" where
  "run2 rd b =
     (case rd b of
        Inl e \<Rightarrow> Inl e
      | Inr (x1, b1) \<Rightarrow>
          (case rd b1 of
             Inl e \<Rightarrow> Inl e
           | Inr (x2, b2) \<Rightarrow> Inr ((x1, x2), b2)))"

definition run3 :: "(buffer \<Rightarrow> error + ('a \<times> buffer)) \<Rightarrow> buffer \<Rightarrow> error + (('a \<times> 'a \<times> 'a) \<times> buffer)" where
  "run3 rd b =
     (case rd b of
        Inl e \<Rightarrow> Inl e
      | Inr (x1, b1) \<Rightarrow>
          (case run2 rd b1 of
             Inl e \<Rightarrow> Inl e
           | Inr ((x2, x3), b3) \<Rightarrow> Inr ((x1, x2, x3), b3)))"

definition run4 :: "(buffer \<Rightarrow> error + ('a \<times> buffer)) \<Rightarrow> buffer \<Rightarrow> error + (('a \<times> 'a \<times> 'a \<times> 'a) \<times> buffer)" where
  "run4 rd b =
     (case rd b of
        Inl e \<Rightarrow> Inl e
      | Inr (x1, b1) \<Rightarrow>
          (case run3 rd b1 of
             Inl e \<Rightarrow> Inl e
           | Inr ((x2, x3, x4), b4) \<Rightarrow> Inr ((x1, x2, x3, x4), b4)))"

section \<open>The archive reader (s3d.py)\<close>

text \<open>
  \<open>readS3D(fp)\<close> wraps the open archive in a \<open>Buffer\<close> and calls \<open>fp.seek(foff)\<close>
  before it reads an entry's chunks; as in section 4.1 of the specification ("seek to
  fileOffset"), the seek is taken to move the cursor, so it is \<open>b\<lparr>pos := foff\<rparr>\<close> here.
  \<open>zlib.decompress\<close> is library code: the reader takes it as the parameter
  \<open>decompress\<close>, which returns the inflated bytes or raises.
\<close>

type_synonym decompressor = "byte list \<Rightarrow> error + byte list"

text \<open>
  The inner loop of \<open>readS3D\<close>:
  \<^verbatim>\<open>while len(data) < size:
      deflen, inflen = b.uint(), b.uint()
      data += decompress(b.read(deflen))\<close>
  with \<open>tsize\<close> for \<open>size\<close> and \<open>dat\<close> for \<open>data\<close>. \<open>inflen\<close> is read and not used.
  Every round reads eight bytes or raises, so the loop ends.
\<close>

function readS3D_chunks :: "decompressor \<Rightarrow> nat \<Rightarrow> byte list \<Rightarrow> buffer \<Rightarrow> error + (byte list \<times> buffer)" where
  "readS3D_chunks decompress tsize dat b =
     (if length dat < tsize then
        (case uint_b b of
           Inl e \<Rightarrow> Inl e
         | Inr (deflen, b1) \<Rightarrow>
             (case uint_b b1 of
                Inl e \<Rightarrow> Inl e
              | Inr (inflen, b2) \<Rightarrow>
                  (case read b2 deflen of
                     Inl e \<Rightarrow> Inl e
                   | Inr (chunk, b3) \<Rightarrow>
                       (case decompress chunk of
                          Inl e \<Rightarrow> Inl e
                        | Inr out \<Rightarrow> readS3D_chunks decompress tsize (dat @ out) b3))))
      else Inr (dat, b))"
  by pat_completeness auto
termination
  by (relation "measure (\<lambda>(decompress, tsize, dat, b). length (data b) - pos b)")
     (auto simp: uint_b_def read_def split: if_splits sum.splits)

definition s3d_magic :: "byte list" where
  "s3d_magic = [0x50, 0x46, 0x53, 0x20]"

definition directory_crc :: nat where
  "directory_crc = 0x61580AC9"

text \<open>
  One round of \<open>for i in range(count)\<close>, up to the entry's data: position the cursor
  on table slot \<open>i\<close>, read \<open>(crc, foff, size)\<close>, seek to \<open>foff\<close>, read the chunks.
\<close>

definition readS3D_entry ::
  "decompressor \<Rightarrow> nat \<Rightarrow> nat \<Rightarrow> buffer \<Rightarrow> error + ((nat \<times> nat \<times> byte list) \<times> buffer)" where
  "readS3D_entry decompress offset i b =
     (case uint_b (b\<lparr>pos := offset + 4 + i * 12\<rparr>) of
        Inl e \<Rightarrow> Inl e
      | Inr (crc, b1) \<Rightarrow>
          (case uint_b b1 of
             Inl e \<Rightarrow> Inl e
           | Inr (foff, b2) \<Rightarrow>
               (case uint_b b2 of
                  Inl e \<Rightarrow> Inl e
                | Inr (tsize, b3) \<Rightarrow>
                    (case readS3D_chunks decompress tsize [] (b3\<lparr>pos := foff\<rparr>) of
                       Inl e \<Rightarrow> Inl e
                     | Inr (dat, b4) \<Rightarrow> Inr ((crc, foff, dat), b4)))))"

text \<open>
  The loop over the table, with its two accumulators: \<open>directory\<close> (the data of the
  entry whose checksum is \<open>0x61580AC9\<close>, \<open>None\<close> before one is met) and \<open>filelist\<close>
  (\<open>(foff, data)\<close> of every other entry, appended in table order).
\<close>

fun readS3D_loop ::
  "decompressor \<Rightarrow> nat \<Rightarrow> nat list \<Rightarrow> byte list option \<times> (nat \<times> byte list) list \<times> buffer
     \<Rightarrow> error + (byte list option \<times> (nat \<times> byte list) list \<times> buffer)" where
  "readS3D_loop decompress offset [] st = Inr st"
| "readS3D_loop decompress offset (i # rest) (directory, filelist, b) =
     (case readS3D_entry decompress offset i b of
        Inl e \<Rightarrow> Inl e
      | Inr ((crc, foff, dat), b4) \<Rightarrow>
          if crc = directory_crc
          then readS3D_loop decompress offset rest (Some dat, filelist, b4)
          else readS3D_loop decompress offset rest (directory, filelist @ [(foff, dat)], b4))"

text \<open>
  \<open>str.lower()\<close> on the code points a \<open>char\<close> can hold: A-Z and the Latin-1
  capitals (0xC0-0xDE without 0xD7) move up by 32.
\<close>

definition py_lower_char :: "char \<Rightarrow> char" where
  "py_lower_char c =
     (let n = (of_char c :: nat)
      in if (65 \<le> n \<and> n \<le> 90) \<or> (192 \<le> n \<and> n \<le> 222 \<and> n \<noteq> 215) then char_of (n + 32) else c)"

definition py_lower :: "string \<Rightarrow> string" where
  "py_lower s = map py_lower_char s"

text \<open>\<open>bytes.strip\<close> of the NUL byte: NUL bytes removed at both ends.\<close>

definition strip0 :: "byte list \<Rightarrow> byte list" where
  "strip0 bs = rev (dropWhile (\<lambda>x. x = 0) (rev (dropWhile (\<lambda>x. x = 0) bs)))"

text \<open>
  The last loop of \<open>readS3D\<close>:
  \<^verbatim>\<open>for _, data in filelist:
      fn = b.read(b.uint()).strip(NUL).decode("utf-8", errors="ignore")
      files[fn.lower()] = data\<close>
  \<open>bytes.decode\<close> is library code, the parameter \<open>decode\<close>.
\<close>

fun readS3D_names ::
  "(byte list \<Rightarrow> string) \<Rightarrow> (nat \<times> byte list) list \<Rightarrow> buffer \<Rightarrow> (string \<rightharpoonup> byte list)
     \<Rightarrow> error + (string \<rightharpoonup> byte list)" where
  "readS3D_names decode [] b files = Inr files"
| "readS3D_names decode ((foff, dat) # rest) b files =
     (case uint_b b of
        Inl e \<Rightarrow> Inl e
      | Inr (n, b1) \<Rightarrow>
          (case read b1 n of
             Inl e \<Rightarrow> Inl e
           | Inr (raw, b2) \<Rightarrow>
               readS3D_names decode rest b2 (files(py_lower (decode (strip0 raw)) \<mapsto> dat))))"

text \<open>
  The names that this loop reads for \<open>k\<close> files, in the order in which it reads
  them: \<open>fn.lower()\<close> of each round.
\<close>

fun directory_names :: "(byte list \<Rightarrow> string) \<Rightarrow> nat \<Rightarrow> buffer \<Rightarrow> error + string list" where
  "directory_names decode 0 b = Inr []"
| "directory_names decode (Suc k) b =
     (case uint_b b of
        Inl e \<Rightarrow> Inl e
      | Inr (n, b1) \<Rightarrow>
          (case read b1 n of
             Inl e \<Rightarrow> Inl e
           | Inr (raw, b2) \<Rightarrow>
               (case directory_names decode k b2 of
                  Inl e \<Rightarrow> Inl e
                | Inr rest \<Rightarrow> Inr (py_lower (decode (strip0 raw)) # rest))))"

text \<open>
  \<open>readS3D\<close> itself. Each \<open>assert\<close> is an \<open>AssertionError\<close>; \<open>filelist.sort(key=...)\<close>
  is the stable \<open>sort_key fst\<close>.
\<close>

definition readS3D ::
  "decompressor \<Rightarrow> (byte list \<Rightarrow> string) \<Rightarrow> byte list \<Rightarrow> error + (string \<rightharpoonup> byte list)" where
  "readS3D decompress decode fp =
     (case uint_b (Buffer fp) of
        Inl e \<Rightarrow> Inl e
      | Inr (offset, b1) \<Rightarrow>
          (case read b1 4 of
             Inl e \<Rightarrow> Inl e
           | Inr (magic, b2) \<Rightarrow>
               if magic \<noteq> s3d_magic then Inl AssertionError
               else
                 (case uint_b (b2\<lparr>pos := offset\<rparr>) of
                    Inl e \<Rightarrow> Inl e
                  | Inr (count, b3) \<Rightarrow>
                      (case readS3D_loop decompress offset [0..<count] (None, [], b3) of
                         Inl e \<Rightarrow> Inl e
                       | Inr (directory, filelist, b4) \<Rightarrow>
                           (case directory of
                              None \<Rightarrow> Inl AssertionError
                            | Some d \<Rightarrow>
                                (case uint_b (Buffer d) of
                                   Inl e \<Rightarrow> Inl e
                                 | Inr (n, bd) \<Rightarrow>
                                     if n \<noteq> length filelist then Inl AssertionError
                                     else readS3D_names decode (sort_key fst filelist) bd Map.empty))))))"


text \<open>
  A well-formed chunk sequence for an entry of declared size \<open>tsize\<close>, \<open>have\<close> bytes
  of which are already recovered: every chunk inflates to exactly its stated length
  \<open>inflen\<close>, and the stated lengths add up to \<open>tsize\<close> without passing it.
\<close>

inductive well_formed_chunks :: "decompressor \<Rightarrow> nat \<Rightarrow> nat \<Rightarrow> buffer \<Rightarrow> bool"
  for decompress :: decompressor and tsize :: nat where
  complete: "have = tsize \<Longrightarrow> well_formed_chunks decompress tsize have b"
| chunk: "have < tsize \<Longrightarrow> uint_b b = Inr (deflen, b1) \<Longrightarrow> uint_b b1 = Inr (inflen, b2)
     \<Longrightarrow> read b2 deflen = Inr (chunk, b3) \<Longrightarrow> decompress chunk = Inr out
     \<Longrightarrow> length out = inflen \<Longrightarrow> have + inflen \<le> tsize
     \<Longrightarrow> well_formed_chunks decompress tsize (have + inflen) b3
     \<Longrightarrow> well_formed_chunks decompress tsize have b"

text \<open>
  The directory table as it lies in the archive bytes: its offset (first word of the
  file), the entry count stored there, and the checksum in slot \<open>i\<close>.
\<close>

definition s3d_offset :: "byte list \<Rightarrow> nat" where
  "s3d_offset fp = le_nat (take 4 fp)"

definition s3d_count :: "byte list \<Rightarrow> nat" where
  "s3d_count fp = le_nat (take 4 (drop (s3d_offset fp) fp))"

definition s3d_crc :: "byte list \<Rightarrow> nat \<Rightarrow> nat" where
  "s3d_crc fp i = le_nat (take 4 (drop (s3d_offset fp + 4 + i * 12) fp))"

text \<open>
  Example data for the theorems below. \<open>stored_codec\<close> is a codec whose chunks hold
  their bytes as they are; \<open>decode_ascii\<close> decodes ASCII and ignores other bytes.
  \<open>short_chunk_archive\<close> holds one file \<open>a\<close> whose only chunk states a decompressed
  length of 5 and inflates to 1 byte; \<open>same_name_archive\<close> holds two files named
  \<open>a\<close> and \<open>A\<close>, and \<open>two_name_archive\<close> the same two files named \<open>a\<close> and
  \<open>b\<close>; \<open>two_chunk_buffer\<close> holds a file of declared size 3 in chunks of 2 and 1
  bytes.
\<close>

definition stored_codec :: decompressor where
  "stored_codec chunk = Inr chunk"

definition decode_ascii :: "byte list \<Rightarrow> string" where
  "decode_ascii bs = map (\<lambda>x. char_of (unat x)) (filter (\<lambda>x. x < 128) bs)"


definition same_name_archive :: "byte list" where
  "same_name_archive =
     [48,0,0,0, 0x50,0x46,0x53,0x20,
      1,0,0,0, 1,0,0,0, 0x41,
      1,0,0,0, 1,0,0,0, 0x42,
      14,0,0,0, 14,0,0,0, 2,0,0,0, 1,0,0,0, 0x61, 1,0,0,0, 0x41,
      3,0,0,0,
      7,0,0,0, 8,0,0,0, 1,0,0,0,
      9,0,0,0, 17,0,0,0, 1,0,0,0,
      0xC9,0x0A,0x58,0x61, 26,0,0,0, 14,0,0,0]"


definition two_name_archive :: "byte list" where
  "two_name_archive =
     [48,0,0,0, 0x50,0x46,0x53,0x20,
      1,0,0,0, 1,0,0,0, 0x41,
      1,0,0,0, 1,0,0,0, 0x42,
      14,0,0,0, 14,0,0,0, 2,0,0,0, 1,0,0,0, 0x61, 1,0,0,0, 0x62,
      3,0,0,0,
      7,0,0,0, 8,0,0,0, 1,0,0,0,
      9,0,0,0, 17,0,0,0, 1,0,0,0,
      0xC9,0x0A,0x58,0x61, 26,0,0,0, 14,0,0,0]"


section \<open>Decoded values, references and the decoder state (wld.py)\<close>

text \<open>
  Fragment payloads are dynamically typed, and the assembler inspects their types, so
  they are values of one type \<open>pyval\<close>. Two constructors are addresses:
  \<^item> \<open>PRef a\<close> is the \<open>FragRef\<close> object at address \<open>a\<close> of the reference heap
    (\<open>refs\<close>); \<open>FragRef.resolve\<close> assigns to its \<open>value\<close> attribute, and the object
    is shared by everything that holds it;
  \<^item> \<open>PObj i\<close> is the dict object that is the value of fragment \<open>i\<close>; the dict
    itself is in the fragment table, where \<open>convertLights\<close> rewrites it.
  Lists, tuples and the dicts nested inside a payload are never assigned to after the
  handler has built them, and are held by value. A float is kept as the expression
  that produces it: the 32-bit pattern read from the stream (\<open>F32\<close>), \<open>float(n)\<close>
  (\<open>FInt\<close>), \<open>math.pi\<close>, and the arithmetic the handler applies to them.
  \<open>fexpr_real\<close> is its value over the reals, without rounding; the patterns of
  infinities and NaNs have no real value and are read like the finite ones.
\<close>

datatype fexpr =
    F32 "32 word"
  | FInt int
  | FPi
  | FDiv fexpr fexpr
  | FMul fexpr fexpr
  | FAdd fexpr fexpr

definition f32_real :: "32 word \<Rightarrow> real" where
  "f32_real x =
     (let m = unat (x AND 0x7FFFFF);
          e = unat (drop_bit 23 x AND 0xFF);
          v = (if e = 0 then real m * 2 powr (- 149) else real (2 ^ 23 + m) * 2 powr (real e - 150))
      in if bit x 31 then - v else v)"

fun fexpr_real :: "fexpr \<Rightarrow> real" where
  "fexpr_real (F32 x) = f32_real x"
| "fexpr_real (FInt i) = real_of_int i"
| "fexpr_real FPi = pi"
| "fexpr_real (FDiv a b) = fexpr_real a / fexpr_real b"
| "fexpr_real (FMul a b) = fexpr_real a * fexpr_real b"
| "fexpr_real (FAdd a b) = fexpr_real a + fexpr_real b"

datatype pyval =
    PNone
  | PBool bool
  | PInt int
  | PFloat fexpr
  | PStr string
  | PTuple "pyval list"
  | PList "pyval list"
  | PDict "(string \<times> pyval) list"
  | PRef nat
  | PObj nat

text \<open>\<open>class FragRef\<close>: \<open>id\<close>, \<open>name\<close> and \<open>value\<close> (\<open>wld\<close> is the decoder that owns the heap).\<close>

record fragref =
  ref_id :: "nat option"
  ref_name :: "string option"
  ref_value :: pyval

text \<open>
  Fragment \<open>i\<close>: the tuple \<open>(i, name, type, frag)\<close> that \<open>Wld.__init__\<close> stores at
  \<open>self.frags[i]\<close>. After the rebake pass \<open>self.frags[i]\<close> is \<open>frag\<close> alone; the table
  below is the same in both phases and \<open>baked\<close> tells which one the code sees.
  \<open>names\<close> and \<open>byType\<close> hold the same objects as \<open>frags\<close>, so they hold indices.
\<close>

record fragment =
  frag_name :: "string option"
  frag_type :: nat
  frag_value :: pyval

record wld =
  buf :: buffer
  s3d :: "string \<rightharpoonup> byte list"
  texture_warnings :: "string \<rightharpoonup> int"
  old :: bool
  stringTable :: string
  baked :: bool
  frags :: "nat \<rightharpoonup> fragment"
  names :: "string option \<rightharpoonup> nat"
  byType :: "nat \<rightharpoonup> nat list"
  refs :: "nat \<Rightarrow> fragref"
  nrefs :: nat

text \<open>
  The value object of fragment \<open>i\<close>: \<open>self.frags[i][3]\<close> before the rebake pass,
  \<open>self.frags[i]\<close> after it. A missing index is the dict's \<open>KeyError\<close>.
\<close>

definition frags_value :: "wld \<Rightarrow> nat \<Rightarrow> error + pyval" where
  "frags_value w i =
     (case frags w i of
        None \<Rightarrow> Inl KeyError
      | Some f \<Rightarrow> Inr (case frag_value f of PDict kvs \<Rightarrow> PObj i | v \<Rightarrow> v))"

definition names_value :: "wld \<Rightarrow> string option \<Rightarrow> error + pyval" where
  "names_value w nm =
     (case names w nm of
        None \<Rightarrow> Inl KeyError
      | Some i \<Rightarrow> frags_value w i)"

definition set_ref_value :: "wld \<Rightarrow> nat \<Rightarrow> pyval \<Rightarrow> wld" where
  "set_ref_value w a v = w\<lparr>refs := (refs w)(a := (refs w a)\<lparr>ref_value := v\<rparr>)\<rparr>"

text \<open>
  \<open>FragRef.resolve\<close>:
  \<^verbatim>\<open>if self.value is not None: pass
  elif self.id is not None:
      self.value = self.wld.frags[self.id]
      if not self.wld.baked: self.value = self.value[3]
  elif self.name is not None:
      self.value = self.wld.names[self.name]
      if not self.wld.baked: self.value = self.value[3]
  if isinstance(self.value, FragRef):
      self.value = self.value.resolve()
  return self.value\<close>
  The method calls itself, and nothing in it bounds the chain of references: a
  reference whose value is itself recurses until the interpreter raises
  \<open>RecursionError\<close>. The first argument is the number of frames left.
\<close>

fun resolve_aux :: "nat \<Rightarrow> wld \<Rightarrow> nat \<Rightarrow> error + (pyval \<times> wld)" where
  "resolve_aux 0 w a = Inl RecursionError"
| "resolve_aux (Suc n) w a =
     (case (if ref_value (refs w a) \<noteq> PNone then Inr (ref_value (refs w a), w)
            else case ref_id (refs w a) of
                   Some i \<Rightarrow>
                     (case frags_value w i of
                        Inl e \<Rightarrow> Inl e
                      | Inr v \<Rightarrow> Inr (v, set_ref_value w a v))
                 | None \<Rightarrow>
                     (case ref_name (refs w a) of
                        Some nm \<Rightarrow>
                          (case names_value w (Some nm) of
                             Inl e \<Rightarrow> Inl e
                           | Inr v \<Rightarrow> Inr (v, set_ref_value w a v))
                      | None \<Rightarrow> Inr (PNone, w))) of
        Inl e \<Rightarrow> Inl e
      | Inr (v, w1) \<Rightarrow>
          (case v of
             PRef a2 \<Rightarrow>
               (case resolve_aux n w1 a2 of
                  Inl e \<Rightarrow> Inl e
                | Inr (v2, w2) \<Rightarrow> Inr (v2, set_ref_value w2 a v2))
           | _ \<Rightarrow> Inr (v, w1)))"

text \<open>The interpreter's default recursion limit.\<close>

definition recursion_limit :: nat where
  "recursion_limit = 1000"

definition resolve :: "wld \<Rightarrow> nat \<Rightarrow> error + (pyval \<times> wld)" where
  "resolve w a = resolve_aux recursion_limit w a"

subsection \<open>Operations on values\<close>

text \<open>
  \<open>len(v)\<close>, \<open>v[k]\<close> for an integer \<open>k\<close> and \<open>v[key]\<close> for a string \<open>key\<close>, first for a
  value that is not a \<open>FragRef\<close>. (What \<open>resolve\<close> returns never is one, and the
  \<open>PRef\<close> case of these three functions is not reached.)
\<close>

definition dict_get :: "(string \<times> pyval) list \<Rightarrow> string \<Rightarrow> error + pyval" where
  "dict_get kvs key = (case map_of kvs key of None \<Rightarrow> Inl KeyError | Some v \<Rightarrow> Inr v)"

fun dict_set :: "string \<Rightarrow> pyval \<Rightarrow> (string \<times> pyval) list \<Rightarrow> (string \<times> pyval) list" where
  "dict_set key v [] = [(key, v)]"
| "dict_set key v ((k, x) # kvs) = (if k = key then (k, v) # kvs else (k, x) # dict_set key v kvs)"

definition obj_items :: "wld \<Rightarrow> nat \<Rightarrow> (string \<times> pyval) list" where
  "obj_items w i =
     (case frags w i of
        None \<Rightarrow> []
      | Some f \<Rightarrow> (case frag_value f of PDict kvs \<Rightarrow> kvs | _ \<Rightarrow> []))"

definition list_index :: "'a list \<Rightarrow> int \<Rightarrow> error + 'a" where
  "list_index xs k =
     (let n = int (length xs); j = (if k < 0 then k + n else k)
      in if 0 \<le> j \<and> j < n then Inr (xs ! nat j) else Inl IndexError)"

definition len_plain :: "wld \<Rightarrow> pyval \<Rightarrow> error + nat" where
  "len_plain w v =
     (case v of
        PStr s \<Rightarrow> Inr (length s)
      | PTuple xs \<Rightarrow> Inr (length xs)
      | PList xs \<Rightarrow> Inr (length xs)
      | PDict kvs \<Rightarrow> Inr (length kvs)
      | PObj i \<Rightarrow> Inr (length (obj_items w i))
      | _ \<Rightarrow> Inl TypeError)"

definition index_plain :: "wld \<Rightarrow> pyval \<Rightarrow> int \<Rightarrow> error + pyval" where
  "index_plain w v k =
     (case v of
        PStr s \<Rightarrow> list_index (map (\<lambda>c. PStr [c]) s) k
      | PTuple xs \<Rightarrow> list_index xs k
      | PList xs \<Rightarrow> list_index xs k
      | PDict kvs \<Rightarrow> Inl KeyError
      | PObj i \<Rightarrow> Inl KeyError
      | _ \<Rightarrow> Inl TypeError)"

definition key_plain :: "wld \<Rightarrow> pyval \<Rightarrow> string \<Rightarrow> error + pyval" where
  "key_plain w v key =
     (case v of
        PDict kvs \<Rightarrow> dict_get kvs key
      | PObj i \<Rightarrow> dict_get (obj_items w i) key
      | _ \<Rightarrow> Inl TypeError)"

text \<open>
  The same three on any value: \<open>FragRef.__len__\<close> and \<open>FragRef.__getitem__\<close> resolve
  the reference and apply the operation to what it resolves to.
\<close>

definition py_len :: "wld \<Rightarrow> pyval \<Rightarrow> error + (nat \<times> wld)" where
  "py_len w v =
     (case v of
        PRef a \<Rightarrow>
          (case resolve w a of
             Inl e \<Rightarrow> Inl e
           | Inr (v', w') \<Rightarrow> (case len_plain w' v' of Inl e \<Rightarrow> Inl e | Inr n \<Rightarrow> Inr (n, w')))
      | _ \<Rightarrow> (case len_plain w v of Inl e \<Rightarrow> Inl e | Inr n \<Rightarrow> Inr (n, w)))"

definition subscript_int :: "wld \<Rightarrow> pyval \<Rightarrow> int \<Rightarrow> error + (pyval \<times> wld)" where
  "subscript_int w v k =
     (case v of
        PRef a \<Rightarrow>
          (case resolve w a of
             Inl e \<Rightarrow> Inl e
           | Inr (v', w') \<Rightarrow> (case index_plain w' v' k of Inl e \<Rightarrow> Inl e | Inr x \<Rightarrow> Inr (x, w')))
      | _ \<Rightarrow> (case index_plain w v k of Inl e \<Rightarrow> Inl e | Inr x \<Rightarrow> Inr (x, w)))"

definition subscript_key :: "wld \<Rightarrow> pyval \<Rightarrow> string \<Rightarrow> error + (pyval \<times> wld)" where
  "subscript_key w v key =
     (case v of
        PRef a \<Rightarrow>
          (case resolve w a of
             Inl e \<Rightarrow> Inl e
           | Inr (v', w') \<Rightarrow> (case key_plain w' v' key of Inl e \<Rightarrow> Inl e | Inr x \<Rightarrow> Inr (x, w')))
      | _ \<Rightarrow> (case key_plain w v key of Inl e \<Rightarrow> Inl e | Inr x \<Rightarrow> Inr (x, w)))"

text \<open>The attribute \<open>v.value\<close>: only a \<open>FragRef\<close> has it.\<close>

definition attr_value :: "wld \<Rightarrow> pyval \<Rightarrow> error + pyval" where
  "attr_value w v = (case v of PRef a \<Rightarrow> Inr (ref_value (refs w a)) | _ \<Rightarrow> Inl AttributeError)"

text \<open>
  \<open>x, y = v\<close>. A list, tuple, string or dict is iterated and must yield two items. A
  \<open>FragRef\<close> has \<open>__getitem__\<close> and no \<open>__iter__\<close>, so it is iterated by \<open>v[0]\<close>,
  \<open>v[1]\<close>, \<open>v[2]\<close>, each of which resolves it, and the items end at the first
  \<open>IndexError\<close>; any other exception of \<open>v[k]\<close> comes out of the assignment.
\<close>

definition unpack2 :: "wld \<Rightarrow> pyval \<Rightarrow> error + ((pyval \<times> pyval) \<times> wld)" where
  "unpack2 w v =
     (case v of
        PRef a \<Rightarrow>
          (case subscript_int w v 0 of
             Inl e \<Rightarrow> Inl (if e = IndexError then ValueError else e)
           | Inr (x, w1) \<Rightarrow>
               (case subscript_int w1 v 1 of
                  Inl e \<Rightarrow> Inl (if e = IndexError then ValueError else e)
                | Inr (y, w2) \<Rightarrow>
                    (case subscript_int w2 v 2 of
                       Inl e \<Rightarrow> if e = IndexError then Inr ((x, y), w2) else Inl e
                     | Inr (z, w3) \<Rightarrow> Inl ValueError)))
      | _ \<Rightarrow>
          (case (case v of
                   PStr s \<Rightarrow> Inr (map (\<lambda>c. PStr [c]) s)
                 | PTuple xs \<Rightarrow> Inr xs
                 | PList xs \<Rightarrow> Inr xs
                 | PDict kvs \<Rightarrow> Inr (map (\<lambda>kv. PStr (fst kv)) kvs)
                 | PObj i \<Rightarrow> Inr (map (\<lambda>kv. PStr (fst kv)) (obj_items w i))
                 | _ \<Rightarrow> Inl TypeError) of
             Inl e \<Rightarrow> Inl e
           | Inr [x, y] \<Rightarrow> Inr ((x, y), w)
           | Inr _ \<Rightarrow> Inl ValueError))"

subsection \<open>The string table and \<open>Wld.getFrag\<close>\<close>

text \<open>
  \<open>getString(i)\<close> is \<open>self.stringTable[i:].split(NUL, 1)[0]\<close>: the table from
  offset \<open>i\<close> (from the end when \<open>i\<close> is negative) up to the first NUL.
\<close>

definition getString :: "wld \<Rightarrow> int \<Rightarrow> string" where
  "getString w i =
     (let n = int (length (stringTable w));
          start = (if i < 0 then max 0 (n + i) else i)
      in takeWhile (\<lambda>c. c \<noteq> CHR 0x00) (drop (nat start) (stringTable w)))"

definition xorkey :: "byte list" where
  "xorkey = [0x95, 0x3A, 0xC5, 0x2A, 0x95, 0x7A, 0x95, 0x6A]"

definition decodeString :: "byte list \<Rightarrow> string" where
  "decodeString s =
     map (\<lambda>(i, x). char_of (unat (x XOR xorkey ! (i mod length xorkey)))) (enumerate 0 s)"

definition new_ref :: "wld \<Rightarrow> fragref \<Rightarrow> nat \<times> wld" where
  "new_ref w r = (nrefs w, w\<lparr>refs := (refs w)(nrefs w := r), nrefs := Suc (nrefs w)\<rparr>)"

text \<open>
  \<open>self.frags[ref][3]\<close> and \<open>self.names[name][3]\<close> as \<open>getFrag\<close> writes them: during
  the table pass (the only time the handlers call \<open>getFrag\<close>) the entry is the tuple and
  its component 3 is the value; after the rebake pass the entry is the value itself and
  the subscript applies to it.
\<close>

definition entry_3 :: "wld \<Rightarrow> error + pyval \<Rightarrow> error + (pyval \<times> wld)" where
  "entry_3 w entry =
     (case entry of
        Inl e \<Rightarrow> Inl e
      | Inr v \<Rightarrow> if baked w then subscript_int w v 3 else Inr (v, w))"

text \<open>
  \<open>Wld.getFrag\<close>:
  \<^verbatim>\<open>if ref > 0:
      ref -= 1
      if ref in self.frags:
          return FragRef(self, id=ref, value=self.frags[ref][3])
      return FragRef(self, id=ref)
  name = self.getString(-ref)
  if name in self.names:
      return FragRef(self, name=name, value=self.names[name][3])
  return FragRef(self, name=name)\<close>
  The result is the address of the new \<open>FragRef\<close>.
\<close>

definition getFrag :: "wld \<Rightarrow> int \<Rightarrow> error + (nat \<times> wld)" where
  "getFrag w ref =
     (if ref > 0 then
        (let i = nat (ref - 1) in
         if frags w i \<noteq> None then
           (case entry_3 w (frags_value w i) of
              Inl e \<Rightarrow> Inl e
            | Inr (v, w1) \<Rightarrow> Inr (new_ref w1 \<lparr>ref_id = Some i, ref_name = None, ref_value = v\<rparr>))
         else Inr (new_ref w \<lparr>ref_id = Some i, ref_name = None, ref_value = PNone\<rparr>))
      else
        (let name = getString w (- ref) in
         if names w (Some name) \<noteq> None then
           (case entry_3 w (names_value w (Some name)) of
              Inl e \<Rightarrow> Inl e
            | Inr (v, w1) \<Rightarrow> Inr (new_ref w1 \<lparr>ref_id = None, ref_name = Some name, ref_value = v\<rparr>))
         else Inr (new_ref w \<lparr>ref_id = None, ref_name = Some name, ref_value = PNone\<rparr>)))"

section \<open>Fragment handlers (wld.py)\<close>

text \<open>
  A handler is a method of the decoder: it reads from \<open>self.b\<close>, may create references
  with \<open>getFrag\<close>, and returns the payload. \<open>rd\<close> applies a cursor read to the
  decoder's cursor.
\<close>

type_synonym handler = "wld \<Rightarrow> error + (pyval \<times> wld)"

definition rd :: "(buffer \<Rightarrow> error + ('a \<times> buffer)) \<Rightarrow> wld \<Rightarrow> error + ('a \<times> wld)" where
  "rd reader w = (case reader (buf w) of Inl e \<Rightarrow> Inl e | Inr (x, b') \<Rightarrow> Inr (x, w\<lparr>buf := b'\<rparr>))"

definition skip_w :: "wld \<Rightarrow> nat \<Rightarrow> wld" where
  "skip_w w n = w\<lparr>buf := skip (buf w) n\<rparr>"

text \<open>\<open>list(map(self.getFrag, refs))\<close>: the references are created from left to right.\<close>

fun getFrags :: "wld \<Rightarrow> int list \<Rightarrow> error + (pyval list \<times> wld)" where
  "getFrags w [] = Inr ([], w)"
| "getFrags w (r # rs) =
     (case getFrag w r of
        Inl e \<Rightarrow> Inl e
      | Inr (a, w1) \<Rightarrow>
          (case getFrags w1 rs of
             Inl e \<Rightarrow> Inl e
           | Inr (as, w2) \<Rightarrow> Inr (PRef a # as, w2)))"

text \<open>The handlers that return \<open>self.getFrag(self.b.int())\<close> (0x05, 0x1C, 0x2D).\<close>

definition frag_getFrag_int :: handler where
  "frag_getFrag_int w =
     (case rd int_b w of
        Inl e \<Rightarrow> Inl e
      | Inr (r, w1) \<Rightarrow>
          (case getFrag w1 r of
             Inl e \<Rightarrow> Inl e
           | Inr (a, w2) \<Rightarrow> Inr (PRef a, w2)))"

definition frag_texunk :: handler where
  "frag_texunk = frag_getFrag_int"

definition frag_light_sourceref :: handler where
  "frag_light_sourceref = frag_getFrag_int"

definition frag_meshref :: handler where
  "frag_meshref = frag_getFrag_int"

text \<open>0x11: \<open>return self.getFrag(self.b.uint())\<close>.\<close>

definition frag_skeltracksetref :: handler where
  "frag_skeltracksetref w =
     (case rd uint_b w of
        Inl e \<Rightarrow> Inl e
      | Inr (r, w1) \<Rightarrow>
          (case getFrag w1 (int r) of
             Inl e \<Rightarrow> Inl e
           | Inr (a, w2) \<Rightarrow> Inr (PRef a, w2)))"

text \<open>
  0x03:
  \<^verbatim>\<open>size = self.b.uint() + 1
  return [self.decodeString(self.b.read(self.b.ushort()))[:-1] for i in range(size)]\<close>
\<close>

definition texname_b :: "buffer \<Rightarrow> error + (pyval \<times> buffer)" where
  "texname_b b =
     (case ushort_b b of
        Inl e \<Rightarrow> Inl e
      | Inr (n, b1) \<Rightarrow>
          (case read b1 n of
             Inl e \<Rightarrow> Inl e
           | Inr (bs, b2) \<Rightarrow> Inr (PStr (butlast (decodeString bs)), b2)))"

definition frag_texname :: handler where
  "frag_texname w =
     (case rd uint_b w of
        Inl e \<Rightarrow> Inl e
      | Inr (n, w1) \<Rightarrow>
          (case rd (run_b texname_b (n + 1)) w1 of
             Inl e \<Rightarrow> Inl e
           | Inr (xs, w2) \<Rightarrow> Inr (PList xs, w2)))"

text \<open>
  0x04:
  \<^verbatim>\<open>flags = self.b.uint()
  size = self.b.uint()
  params = 0
  if flags & (1 << 2): self.b.uint()
  if flags & (1 << 3): params = self.b.uint()
  return dict(textures=list(map(self.getFrag, self.b.int(size))), params=params)\<close>
\<close>

definition frag_texbitinfo :: handler where
  "frag_texbitinfo w =
     (case rd uint_b w of
        Inl e \<Rightarrow> Inl e
      | Inr (flags, w1) \<Rightarrow>
          (case rd uint_b w1 of
             Inl e \<Rightarrow> Inl e
           | Inr (n, w2) \<Rightarrow>
               (case (if flags AND 4 \<noteq> 0 then rd uint_b w2 else Inr (0, w2)) of
                  Inl e \<Rightarrow> Inl e
                | Inr (unused, w3) \<Rightarrow>
                    (case (if flags AND 8 \<noteq> 0 then rd uint_b w3 else Inr (0, w3)) of
                       Inl e \<Rightarrow> Inl e
                     | Inr (params, w4) \<Rightarrow>
                         (case rd (run_b int_b n) w4 of
                            Inl e \<Rightarrow> Inl e
                          | Inr (rs, w5) \<Rightarrow>
                              (case getFrags w5 rs of
                                 Inl e \<Rightarrow> Inl e
                               | Inr (as, w6) \<Rightarrow>
                                   Inr (PDict [(''textures'', PList as), (''params'', PInt (int params))], w6)))))))"

text \<open>
  0x30, \<open>frag_texref\<close>:
  \<^verbatim>\<open>pairflags = self.b.uint()
  flags = self.b.uint()
  self.b += 12
  if (pairflags & 2) == 2: self.b += 8
  saneflags = ...
  texbitinfo_ref = self.getFrag(self.b.int())
  return saneflags, texbitinfo_ref\<close>
  The flag constants come from \<open>zonefile.py\<close>.
\<close>

text \<open>
  Modelled from the spec: \<open>zonefile.py\<close>, which declares the material flags, is not
  among the sources. The specification names the flag set (masked, translucent,
  transparent); the values are the ones \<open>direct_gltf_export.py\<close> documents
  (\<open>FLAG_MASKED = 1 << 0\<close>, \<open>FLAG_TRANSLUCENT = 1 << 1\<close>, \<open>FLAG_TRANSPARENT = 1 << 2\<close>).
\<close>

definition FLAG_MASKED :: nat where
  "FLAG_MASKED = 1"

definition FLAG_TRANSLUCENT :: nat where
  "FLAG_TRANSLUCENT = 2"

definition FLAG_TRANSPARENT :: nat where
  "FLAG_TRANSPARENT = 4"

text \<open>
  The flag normalisation of \<open>frag_texref\<close>: \<open>saneflags\<close> as the handler computes it
  from the raw \<open>flags\<close> word, the four assignments in the order of the source:
  \<^verbatim>\<open>saneflags = 0
  if flags == 0: saneflags = FLAG_TRANSPARENT
  if (flags & (2 | 8 | 16)) != 0: saneflags |= FLAG_MASKED
  if (flags & (4 | 8)) != 0: saneflags |= FLAG_TRANSLUCENT
  if flags & 0xFFFF == 0x14: saneflags = 0\<close>
\<close>

definition texref_saneflags :: "nat \<Rightarrow> nat" where
  "texref_saneflags flags =
     (let saneflags = 0;
          saneflags = (if flags = 0 then FLAG_TRANSPARENT else saneflags);
          saneflags = (if flags AND (2 OR 8 OR 16) \<noteq> 0 then saneflags OR FLAG_MASKED else saneflags);
          saneflags = (if flags AND (4 OR 8) \<noteq> 0 then saneflags OR FLAG_TRANSLUCENT else saneflags);
          saneflags = (if flags AND 0xFFFF = 0x14 then 0 else saneflags)
      in saneflags)"

definition frag_texref :: handler where
  "frag_texref w =
     (case rd uint_b w of
        Inl e \<Rightarrow> Inl e
      | Inr (pairflags, w1) \<Rightarrow>
          (case rd uint_b w1 of
             Inl e \<Rightarrow> Inl e
           | Inr (flags, w2) \<Rightarrow>
               (let w3 = skip_w w2 12;
                    w4 = (if pairflags AND 2 = 2 then skip_w w3 8 else w3)
                in case rd int_b w4 of
                     Inl e \<Rightarrow> Inl e
                   | Inr (r, w5) \<Rightarrow>
                       (case getFrag w5 r of
                          Inl e \<Rightarrow> Inl e
                        | Inr (a, w6) \<Rightarrow>
                            Inr (PTuple [PInt (int (texref_saneflags flags)), PRef a], w6)))))"

text \<open>
  0x31:
  \<^verbatim>\<open>zero_value = self.b.uint()
  count = self.b.uint()
  result = []
  for i in range(count):
      texture_ref_id = self.b.uint()
      if texture_ref_id > 0:
          result.append(self.getFrag(texture_ref_id))
  return result\<close>
\<close>

fun texlist_loop :: "nat \<Rightarrow> pyval list \<Rightarrow> wld \<Rightarrow> error + (pyval list \<times> wld)" where
  "texlist_loop 0 result w = Inr (result, w)"
| "texlist_loop (Suc n) result w =
     (case rd uint_b w of
        Inl e \<Rightarrow> Inl e
      | Inr (texture_ref_id, w1) \<Rightarrow>
          if texture_ref_id > 0 then
            (case getFrag w1 (int texture_ref_id) of
               Inl e \<Rightarrow> Inl e
             | Inr (a, w2) \<Rightarrow> texlist_loop n (result @ [PRef a]) w2)
          else texlist_loop n result w1)"

definition frag_texlist :: handler where
  "frag_texlist w =
     (case rd uint_b w of
        Inl e \<Rightarrow> Inl e
      | Inr (zero_value, w1) \<Rightarrow>
          (case rd uint_b w1 of
             Inl e \<Rightarrow> Inl e
           | Inr (n, w2) \<Rightarrow>
               (case texlist_loop n [] w2 of
                  Inl e \<Rightarrow> Inl e
                | Inr (result, w3) \<Rightarrow> Inr (PList result, w3))))"

text \<open>
  0x1B, \<open>frag_light_source\<close>, and 0x28, \<open>frag_light_info\<close>:
  \<^verbatim>\<open>flags = self.b.uint(); params2 = self.b.uint()
  attenuation = 200.0
  if flags & (1 << 4):
      if flags & (1 << 3): attenuation = self.b.uint()
      unk = self.b.float()
      color = self.b.float(3)
  else:
      params3a = self.b.float()
      color = (params3a, params3a, params3a)
  return dict(attenuation=attenuation, color=color)\<close>
  \<^verbatim>\<open>lref = self.getFrag(self.b.int())
  flags = self.b.uint()
  pos = self.b.float(3)
  radius = self.b.float()
  return dict(light=lref, flags=flags, position=pos, radius=radius)\<close>
\<close>

definition frag_light_source :: handler where
  "frag_light_source w =
     (case rd (run2 uint_b) w of
        Inl e \<Rightarrow> Inl e
      | Inr ((flags, params2), w1) \<Rightarrow>
          if flags AND 16 \<noteq> 0 then
            (case (if flags AND 8 \<noteq> 0
                   then (case rd uint_b w1 of Inl e \<Rightarrow> Inl e | Inr (n, w2) \<Rightarrow> Inr (PInt (int n), w2))
                   else Inr (PFloat (FInt 200), w1)) of
               Inl e \<Rightarrow> Inl e
             | Inr (attenuation, w2) \<Rightarrow>
                 (case rd float_b w2 of
                    Inl e \<Rightarrow> Inl e
                  | Inr (unk, w3) \<Rightarrow>
                      (case rd (run3 float_b) w3 of
                         Inl e \<Rightarrow> Inl e
                       | Inr ((r, g, bl), w4) \<Rightarrow>
                           Inr (PDict [(''attenuation'', attenuation),
                                       (''color'', PTuple [PFloat (F32 r), PFloat (F32 g), PFloat (F32 bl)])], w4))))
          else
            (case rd float_b w1 of
               Inl e \<Rightarrow> Inl e
             | Inr (params3a, w2) \<Rightarrow>
                 Inr (PDict [(''attenuation'', PFloat (FInt 200)),
                             (''color'', PTuple [PFloat (F32 params3a), PFloat (F32 params3a), PFloat (F32 params3a)])], w2)))"

definition frag_light_info :: handler where
  "frag_light_info w =
     (case rd int_b w of
        Inl e \<Rightarrow> Inl e
      | Inr (r, w1) \<Rightarrow>
          (case getFrag w1 r of
             Inl e \<Rightarrow> Inl e
           | Inr (lref, w2) \<Rightarrow>
               (case rd uint_b w2 of
                  Inl e \<Rightarrow> Inl e
                | Inr (flags, w3) \<Rightarrow>
                    (case rd (run3 float_b) w3 of
                       Inl e \<Rightarrow> Inl e
                     | Inr ((x, y, z), w4) \<Rightarrow>
                         (case rd float_b w4 of
                            Inl e \<Rightarrow> Inl e
                          | Inr (radius, w5) \<Rightarrow>
                              Inr (PDict [(''light'', PRef lref), (''flags'', PInt (int flags)),
                                          (''position'', PTuple [PFloat (F32 x), PFloat (F32 y), PFloat (F32 z)]),
                                          (''radius'', PFloat (F32 radius))], w5))))))"

text \<open>
  0x15, \<open>frag_objloc\<close>:
  \<^verbatim>\<open>sref = self.b.int()
  flags = self.b.uint()
  frag1_unk = self.b.uint()
  pos = self.b.float(3)
  rot = self.b.float(3)
  rot = (rot[2] / 512.0 * 360.0 * pi / 180.0,
         rot[1] / 512.0 * 360.0 * pi / 180.0,
         rot[0] / 512.0 * 360.0 * pi / 180.0)
  scale = self.b.float(3)
  scale = (scale[2], scale[2], scale[2]) if scale[2] > 0.0001 else (1, 1, 1)
  frag2_unk = self.b.uint()
  params2 = self.b.uint()
  return dict(position=pos, rotation=rot, scale=scale, nameoff=sref)\<close>
\<close>

definition objloc_angle :: "32 word \<Rightarrow> fexpr" where
  "objloc_angle r = FDiv (FMul (FMul (FDiv (F32 r) (FInt 512)) (FInt 360)) FPi) (FInt 180)"

definition objloc_rotation :: "32 word \<times> 32 word \<times> 32 word \<Rightarrow> pyval" where
  "objloc_rotation rot =
     (case rot of (rot0, rot1, rot2) \<Rightarrow>
        PTuple [PFloat (objloc_angle rot2), PFloat (objloc_angle rot1), PFloat (objloc_angle rot0)])"

definition frag_objloc :: handler where
  "frag_objloc w =
     (case rd int_b w of
        Inl e \<Rightarrow> Inl e
      | Inr (sref, w1) \<Rightarrow>
          (case rd (run2 uint_b) w1 of
             Inl e \<Rightarrow> Inl e
           | Inr ((flags, frag1_unk), w2) \<Rightarrow>
               (case rd (run3 float_b) w2 of
                  Inl e \<Rightarrow> Inl e
                | Inr ((px, py, pz), w3) \<Rightarrow>
                    (case rd (run3 float_b) w3 of
                       Inl e \<Rightarrow> Inl e
                     | Inr (rot, w4) \<Rightarrow>
                         (case rd (run3 float_b) w4 of
                            Inl e \<Rightarrow> Inl e
                          | Inr ((s0, s1, s2), w5) \<Rightarrow>
                              (case rd (run2 uint_b) w5 of
                                 Inl e \<Rightarrow> Inl e
                               | Inr ((frag2_unk, params2), w6) \<Rightarrow>
                                   Inr (PDict [(''position'', PTuple [PFloat (F32 px), PFloat (F32 py), PFloat (F32 pz)]),
                                               (''rotation'', objloc_rotation rot),
                                               (''scale'',
                                                  if f32_real s2 > 1 / 10000
                                                  then PTuple [PFloat (F32 s2), PFloat (F32 s2), PFloat (F32 s2)]
                                                  else PTuple [PInt 1, PInt 1, PInt 1]),
                                               (''nameoff'', PInt sref)], w6)))))))"

text \<open>The rotation of a decoded placement, in radians.\<close>

definition rotation_radians :: "pyval \<Rightarrow> real list" where
  "rotation_radians v =
     (case v of
        PTuple xs \<Rightarrow> map (\<lambda>x. case x of PFloat f \<Rightarrow> fexpr_real f | _ \<Rightarrow> 0) xs
      | _ \<Rightarrow> [])"

subsection \<open>The mesh handler, \<open>frag_mesh\<close> (0x36)\<close>

text \<open>
  The head of the record, up to the scale:
  \<^verbatim>\<open>flags, tlistref, aniref = self.b.uint(3)
  out["textures"] = self.getFrag(tlistref)
  self.b += 8
  center = self.b.vec3()
  self.b += 12
  maxdist = self.b.float()
  min, max = self.b.vec3(2)
  vertcount, texcoordcount, normalcount, colorcount = self.b.ushort(4)
  polycount, vertpiececount, polytexcount, verttexcount = self.b.ushort(4)
  size9 = self.b.ushort()
  scale = float(1 << self.b.ushort())\<close>
  \<open>float\<close> of an integer of 2^1024 or more raises \<open>OverflowError\<close>.
\<close>

record mesh_head =
  textures_ref :: nat
  center :: "32 word \<times> 32 word \<times> 32 word"
  vertcount :: nat
  texcoordcount :: nat
  normalcount :: nat
  colorcount :: nat
  polycount :: nat
  vertpiececount :: nat
  polytexcount :: nat
  scale :: fexpr

definition frag_mesh_head :: "wld \<Rightarrow> error + (mesh_head \<times> wld)" where
  "frag_mesh_head w =
     (case rd (run3 uint_b) w of
        Inl e \<Rightarrow> Inl e
      | Inr ((flags, tlistref, aniref), w1) \<Rightarrow>
          (case getFrag w1 (int tlistref) of
             Inl e \<Rightarrow> Inl e
           | Inr (a, w2) \<Rightarrow>
               (case rd (run3 float_b) (skip_w w2 8) of
                  Inl e \<Rightarrow> Inl e
                | Inr (c, w3) \<Rightarrow>
                    (case rd float_b (skip_w w3 12) of
                       Inl e \<Rightarrow> Inl e
                     | Inr (maxdist, w4) \<Rightarrow>
                         (case rd (run2 (run3 float_b)) w4 of
                            Inl e \<Rightarrow> Inl e
                          | Inr (minmax, w5) \<Rightarrow>
                              (case rd (run4 ushort_b) w5 of
                                 Inl e \<Rightarrow> Inl e
                               | Inr ((vc, tc, nc, cc), w6) \<Rightarrow>
                                   (case rd (run4 ushort_b) w6 of
                                      Inl e \<Rightarrow> Inl e
                                    | Inr ((pc, vpc, ptc, vtc), w7) \<Rightarrow>
                                        (case rd (run2 ushort_b) w7 of
                                           Inl e \<Rightarrow> Inl e
                                         | Inr ((size9, shift), w8) \<Rightarrow>
                                             if shift \<ge> 1024 then Inl OverflowError
                                             else Inr (\<lparr>textures_ref = a, center = c,
                                                        vertcount = vc, texcoordcount = tc,
                                                        normalcount = nc, colorcount = cc,
                                                        polycount = pc, vertpiececount = vpc,
                                                        polytexcount = ptc,
                                                        scale = FInt (2 ^ shift)\<rparr>, w8)))))))))"

text \<open>
  The per-vertex arrays and the colours, up to the assertion:
  \<^verbatim>\<open>out["vertices"] = [(self.b.short() / scale + center[0],
                      self.b.short() / scale + center[1],
                      self.b.short() / scale + center[2]) for i in range(vertcount)]
  if texcoordcount == 0:
      out["texcoords"] = [(0, 0)] * vertcount
  else:
      out["texcoords"] = [((self.b.short() / 256.0, self.b.short() / 256.0)
                           if self.old else self.b.float(2)) for i in range(texcoordcount)]
  out["normals"] = [(self.b.char() / 127.0, self.b.char() / 127.0, self.b.char() / 127.0)
                    for i in range(normalcount)]
  tcolors = self.b.uint(colorcount)\<close>
\<close>

definition vertex_b :: "mesh_head \<Rightarrow> buffer \<Rightarrow> error + (pyval \<times> buffer)" where
  "vertex_b h b =
     (case run3 short_b b of
        Inl e \<Rightarrow> Inl e
      | Inr ((x, y, z), b1) \<Rightarrow>
          (case center h of (c0, c1, c2) \<Rightarrow>
             Inr (PTuple [PFloat (FAdd (FDiv (FInt x) (scale h)) (F32 c0)),
                          PFloat (FAdd (FDiv (FInt y) (scale h)) (F32 c1)),
                          PFloat (FAdd (FDiv (FInt z) (scale h)) (F32 c2))], b1)))"

definition texcoord_b :: "bool \<Rightarrow> buffer \<Rightarrow> error + (pyval \<times> buffer)" where
  "texcoord_b is_old b =
     (if is_old then
        (case run2 short_b b of
           Inl e \<Rightarrow> Inl e
         | Inr ((u, v), b1) \<Rightarrow>
             Inr (PTuple [PFloat (FDiv (FInt u) (FInt 256)), PFloat (FDiv (FInt v) (FInt 256))], b1))
      else
        (case run2 float_b b of
           Inl e \<Rightarrow> Inl e
         | Inr ((u, v), b1) \<Rightarrow> Inr (PTuple [PFloat (F32 u), PFloat (F32 v)], b1)))"

definition normal_b :: "buffer \<Rightarrow> error + (pyval \<times> buffer)" where
  "normal_b b =
     (case run3 char_b b of
        Inl e \<Rightarrow> Inl e
      | Inr ((x, y, z), b1) \<Rightarrow>
          Inr (PTuple [PFloat (FDiv (FInt x) (FInt 127)),
                       PFloat (FDiv (FInt y) (FInt 127)),
                       PFloat (FDiv (FInt z) (FInt 127))], b1))"

record mesh_arrays =
  vertices :: "pyval list"
  texcoords :: "pyval list"
  normals :: "pyval list"
  tcolors :: "nat list"

definition frag_mesh_arrays :: "mesh_head \<Rightarrow> wld \<Rightarrow> error + (mesh_arrays \<times> wld)" where
  "frag_mesh_arrays h w =
     (case rd (run_b (vertex_b h) (vertcount h)) w of
        Inl e \<Rightarrow> Inl e
      | Inr (vs, w1) \<Rightarrow>
          (case (if texcoordcount h = 0
                 then Inr (replicate (vertcount h) (PTuple [PInt 0, PInt 0]), w1)
                 else rd (run_b (texcoord_b (old w1)) (texcoordcount h)) w1) of
             Inl e \<Rightarrow> Inl e
           | Inr (ts, w2) \<Rightarrow>
               (case rd (run_b normal_b (normalcount h)) w2 of
                  Inl e \<Rightarrow> Inl e
                | Inr (ns, w3) \<Rightarrow>
                    (case rd (run_b uint_b (colorcount h)) w3 of
                       Inl e \<Rightarrow> Inl e
                     | Inr (cs, w4) \<Rightarrow>
                         Inr (\<lparr>vertices = vs, texcoords = ts, normals = ns, tcolors = cs\<rparr>, w4)))))"

text \<open>
  After the assertion:
  \<^verbatim>\<open>out["colors"] = [[struct.unpack("<f", struct.pack("<I", x))[0]] for x in tcolors]
  out["polys"] = [(self.b.ushort() != 0x0010, self.b.ushort(3)) for i in range(polycount)]
  out["bonevertices"] = [self.b.ushort(2) for i in range(vertpiececount)]
  out["polytex"] = [self.b.ushort(2) for i in range(polytexcount)]
  return out\<close>
\<close>

definition poly_b :: "buffer \<Rightarrow> error + (pyval \<times> buffer)" where
  "poly_b b =
     (case run4 ushort_b b of
        Inl e \<Rightarrow> Inl e
      | Inr ((f, i, j, k), b1) \<Rightarrow>
          Inr (PTuple [PBool (f \<noteq> 0x0010), PTuple [PInt (int i), PInt (int j), PInt (int k)]], b1))"

definition pair_b :: "buffer \<Rightarrow> error + (pyval \<times> buffer)" where
  "pair_b b =
     (case run2 ushort_b b of
        Inl e \<Rightarrow> Inl e
      | Inr ((x, y), b1) \<Rightarrow> Inr (PTuple [PInt (int x), PInt (int y)], b1))"

definition frag_mesh_tail :: "mesh_head \<Rightarrow> mesh_arrays \<Rightarrow> nat list \<Rightarrow> wld \<Rightarrow> error + (pyval \<times> wld)" where
  "frag_mesh_tail h arr cols w =
     (case rd (run_b poly_b (polycount h)) w of
        Inl e \<Rightarrow> Inl e
      | Inr (polys, w1) \<Rightarrow>
          (case rd (run_b pair_b (vertpiececount h)) w1 of
             Inl e \<Rightarrow> Inl e
           | Inr (bonevertices, w2) \<Rightarrow>
               (case rd (run_b pair_b (polytexcount h)) w2 of
                  Inl e \<Rightarrow> Inl e
                | Inr (polytex, w3) \<Rightarrow>
                    Inr (PDict [(''textures'', PRef (textures_ref h)),
                                (''vertices'', PList (vertices arr)),
                                (''texcoords'', PList (texcoords arr)),
                                (''normals'', PList (normals arr)),
                                (''colors'', PList (map (\<lambda>x. PList [PFloat (F32 (word_of_nat x))]) cols)),
                                (''polys'', PList polys),
                                (''bonevertices'', PList bonevertices),
                                (''polytex'', PList polytex)], w3))))"

text \<open>
  \<open>frag_mesh\<close>: the three parts, with the colour fix-up and the assertion between the
  second and the third:
  \<^verbatim>\<open>if colorcount == 0:
      tcolors = [0] * vertcount
  assert len(tcolors) == vertcount\<close>
\<close>

definition frag_mesh :: handler where
  "frag_mesh w =
     (case frag_mesh_head w of
        Inl e \<Rightarrow> Inl e
      | Inr (h, w1) \<Rightarrow>
          (case frag_mesh_arrays h w1 of
             Inl e \<Rightarrow> Inl e
           | Inr (arr, w2) \<Rightarrow>
               (let cols = (if colorcount h = 0 then replicate (vertcount h) 0 else tcolors arr)
                in if length cols \<noteq> vertcount h then Inl AssertionError
                   else frag_mesh_tail h arr cols w2)))"

text \<open>
  The handler table \<open>fragHandlers\<close>, for the fragment types whose handlers are given
  above (textures, meshes, lights, placements). The decoder below takes the table as a parameter:
  what is proved of it holds for every table, the one of the source included.
\<close>

definition fragHandlers :: "nat \<rightharpoonup> handler" where
  "fragHandlers =
     [0x03 \<mapsto> frag_texname, 0x04 \<mapsto> frag_texbitinfo, 0x05 \<mapsto> frag_texunk,
      0x11 \<mapsto> frag_skeltracksetref, 0x15 \<mapsto> frag_objloc, 0x1B \<mapsto> frag_light_source,
      0x1C \<mapsto> frag_light_sourceref, 0x28 \<mapsto> frag_light_info,
      0x2D \<mapsto> frag_meshref, 0x30 \<mapsto> frag_texref, 0x31 \<mapsto> frag_texlist,
      0x36 \<mapsto> frag_mesh]"

section \<open>The decoder, \<open>Wld.__init__\<close>\<close>

text \<open>
  The header:
  \<^verbatim>\<open>self.b = b = Buffer(data)
  assert b.uint() == 0x54503D02
  self.old = b.uint() == 0x00015500
  fragCount = b.uint()
  b += 8
  hashlen = b.uint()
  b += 4
  self.stringTable = self.decodeString(b.read(hashlen))
  self.baked = False; self.frags = {}; self.names = {}; self.byType = {}\<close>
\<close>

definition Wld_header :: "byte list \<Rightarrow> (string \<rightharpoonup> byte list) \<Rightarrow> error + (nat \<times> wld)" where
  "Wld_header dat files =
     (case uint_b (Buffer dat) of
        Inl e \<Rightarrow> Inl e
      | Inr (magic, b1) \<Rightarrow>
          if magic \<noteq> 0x54503D02 then Inl AssertionError
          else
            (case run2 uint_b b1 of
               Inl e \<Rightarrow> Inl e
             | Inr ((version, fragCount), b2) \<Rightarrow>
                 (case uint_b (skip b2 8) of
                    Inl e \<Rightarrow> Inl e
                  | Inr (hashlen, b3) \<Rightarrow>
                      (case read (skip b3 4) hashlen of
                         Inl e \<Rightarrow> Inl e
                       | Inr (table, b4) \<Rightarrow>
                           Inr (fragCount,
                                \<lparr>buf = b4, s3d = files, texture_warnings = Map.empty,
                                 old = (version = 0x00015500),
                                 stringTable = decodeString table, baked = False,
                                 frags = Map.empty, names = Map.empty, byType = Map.empty,
                                 refs = (\<lambda>a. \<lparr>ref_id = None, ref_name = None, ref_value = PNone\<rparr>),
                                 nrefs = 0\<rparr>)))))"

text \<open>
  One round of the fragment table pass:
  \<^verbatim>\<open>size = b.uint()
  type = b.uint()
  nameoff = b.int()
  name = self.getString(-nameoff) if nameoff != 0x1000000 else None
  epos = b.pos + size - 4
  frag = fragHandlers[type](self) if type in fragHandlers else None
  if isinstance(frag, dict):
      frag["_name"] = name
  frag = (i, name, type, frag)
  self.frags[i] = frag
  if name != "" or type == 0x05:
      self.names[name] = frag
  if type not in self.byType:
      self.byType[type] = []
  self.byType[type].append(frag)
  b.pos = epos\<close>
  \<open>tsize\<close> and \<open>ty\<close> stand for \<open>size\<close> and \<open>type\<close>; \<open>Wld_entry_head\<close> is the three
  reads. The cursor is at 12 or more after them, so \<open>epos\<close> is not cut off at 0. A
  handler that raises ends the round, and the pass, with its exception: nothing here
  catches it. (A payload \<open>PObj j\<close> is the dict of fragment \<open>j\<close> itself, and the
  assignment to \<open>_name\<close> is made there.)
\<close>

definition name_val :: "string option \<Rightarrow> pyval" where
  "name_val name = (case name of None \<Rightarrow> PNone | Some s \<Rightarrow> PStr s)"

text \<open>\<open>d[key] = v\<close> on the dict of fragment \<open>j\<close>.\<close>

definition obj_set :: "wld \<Rightarrow> nat \<Rightarrow> string \<Rightarrow> pyval \<Rightarrow> wld" where
  "obj_set w j key v =
     (case frags w j of
        None \<Rightarrow> w
      | Some f \<Rightarrow>
          (case frag_value f of
             PDict kvs \<Rightarrow> w\<lparr>frags := (frags w)(j \<mapsto> f\<lparr>frag_value := PDict (dict_set key v kvs)\<rparr>)\<rparr>
           | _ \<Rightarrow> w))"

definition Wld_entry_head :: "wld \<Rightarrow> error + ((nat \<times> nat \<times> int) \<times> wld)" where
  "Wld_entry_head w =
     (case rd (run2 uint_b) w of
        Inl e \<Rightarrow> Inl e
      | Inr ((tsize, ty), w1) \<Rightarrow>
          (case rd int_b w1 of
             Inl e \<Rightarrow> Inl e
           | Inr (nameoff, w2) \<Rightarrow> Inr ((tsize, ty, nameoff), w2)))"

definition Wld_entry :: "(nat \<rightharpoonup> handler) \<Rightarrow> nat \<Rightarrow> wld \<Rightarrow> error + wld" where
  "Wld_entry handlers i w =
     (case Wld_entry_head w of
        Inl e \<Rightarrow> Inl e
      | Inr ((tsize, ty, nameoff), w2) \<Rightarrow>
          (let name = (if nameoff \<noteq> 0x1000000 then Some (getString w2 (- nameoff)) else None);
               epos = pos (buf w2) + tsize - 4
           in case (case handlers ty of Some h \<Rightarrow> h w2 | None \<Rightarrow> Inr (PNone, w2)) of
                Inl e \<Rightarrow> Inl e
              | Inr (frag, w3) \<Rightarrow>
                  (let w3 = (case frag of
                               PObj j \<Rightarrow> obj_set w3 j ''_name'' (name_val name)
                             | _ \<Rightarrow> w3);
                       frag = (case frag of
                                 PDict kvs \<Rightarrow> PDict (dict_set ''_name'' (name_val name) kvs)
                               | _ \<Rightarrow> frag);
                       w4 = w3\<lparr>frags := (frags w3)(i \<mapsto> \<lparr>frag_name = name, frag_type = ty, frag_value = frag\<rparr>)\<rparr>;
                       w5 = (if name \<noteq> Some '''' \<or> ty = 0x05
                             then w4\<lparr>names := (names w4)(name \<mapsto> i)\<rparr> else w4);
                       w6 = w5\<lparr>byType := (byType w5)(ty \<mapsto> (case byType w5 ty of None \<Rightarrow> [] | Some l \<Rightarrow> l) @ [i])\<rparr>
                   in Inr (w6\<lparr>buf := (buf w6)\<lparr>pos := epos\<rparr>\<rparr>))))"

fun Wld_loop :: "(nat \<rightharpoonup> handler) \<Rightarrow> nat list \<Rightarrow> wld \<Rightarrow> error + wld" where
  "Wld_loop handlers [] w = Inr w"
| "Wld_loop handlers (i # rest) w =
     (case Wld_entry handlers i w of
        Inl e \<Rightarrow> Inl e
      | Inr w' \<Rightarrow> Wld_loop handlers rest w')"

text \<open>
  The rebake pass:
  \<^verbatim>\<open>self.byType = {k: [] for k in self.byType}
  nfrags = {}; nnames = {}
  for i, name, type, frag in self.frags.values():
      nfrags[i] = nnames[name] = frag
      self.byType[type].append(frag)
  self.frags = nfrags; self.names = nnames
  self.baked = True\<close>
  \<open>self.frags.values()\<close> runs in insertion order, the order of the indices.
\<close>

fun Wld_bake_loop ::
  "wld \<Rightarrow> nat list \<Rightarrow> (string option \<rightharpoonup> nat) \<times> (nat \<rightharpoonup> nat list)
     \<Rightarrow> error + ((string option \<rightharpoonup> nat) \<times> (nat \<rightharpoonup> nat list))" where
  "Wld_bake_loop w [] acc = Inr acc"
| "Wld_bake_loop w (i # rest) (nnames, bt) =
     (case frags w i of
        None \<Rightarrow> Wld_bake_loop w rest (nnames, bt)
      | Some f \<Rightarrow>
          (case bt (frag_type f) of
             None \<Rightarrow> Inl KeyError
           | Some l \<Rightarrow>
               Wld_bake_loop w rest (nnames(frag_name f \<mapsto> i), bt(frag_type f \<mapsto> l @ [i]))))"

definition Wld_bake :: "nat \<Rightarrow> wld \<Rightarrow> error + wld" where
  "Wld_bake fragCount w =
     (case Wld_bake_loop w [0..<fragCount]
             (Map.empty, (\<lambda>k. if byType w k = None then None else Some [])) of
        Inl e \<Rightarrow> Inl e
      | Inr (nnames, bt) \<Rightarrow> Inr (w\<lparr>names := nnames, byType := bt, baked := True\<rparr>))"

definition Wld_init ::
  "(nat \<rightharpoonup> handler) \<Rightarrow> byte list \<Rightarrow> (string \<rightharpoonup> byte list) \<Rightarrow> error + wld" where
  "Wld_init handlers dat files =
     (case Wld_header dat files of
        Inl e \<Rightarrow> Inl e
      | Inr (fragCount, w0) \<Rightarrow>
          (case Wld_loop handlers [0..<fragCount] w0 of
             Inl e \<Rightarrow> Inl e
           | Inr w1 \<Rightarrow> Wld_bake fragCount w1))"

text \<open>
  The end position that a table entry declares: the entry starts at the cursor, its
  first word is \<open>size\<close>, and \<open>epos\<close> is the position after the 12-byte entry head
  plus \<open>size - 4\<close>. The decoder of an empty stream, for the examples.
\<close>

definition entry_end :: "buffer \<Rightarrow> nat" where
  "entry_end b = pos b + 12 + le_nat (take 4 (drop (pos b) (data b))) - 4"

definition empty_wld :: wld where
  "empty_wld =
     \<lparr>buf = Buffer [], s3d = Map.empty, texture_warnings = Map.empty, old = False,
      stringTable = [], baked = False, frags = Map.empty, names = Map.empty,
      byType = Map.empty,
      refs = (\<lambda>a. \<lparr>ref_id = None, ref_name = None, ref_value = PNone\<rparr>), nrefs = 0\<rparr>"

text \<open>
  Example streams. Each starts with the 28-byte header (magic, version 0, fragment
  count, string table of length 0). \<open>chain_stream\<close> has three fragments with the
  empty name: one of the unregistered type 0x99, then two of type 0x05, the first
  referring to fragment 0 by index and the second to the name \<open>""\<close>. \<open>trailing_stream\<close>
  has one unnamed fragment of type 0x05 whose declared size leaves four bytes after
  the four that the handler reads. \<open>mesh_stream\<close> has one unnamed mesh fragment that
  declares no vertices and one colour.
\<close>

definition chain_stream :: "byte list" where
  "chain_stream =
     [0x02,0x3D,0x50,0x54, 0,0,0,0, 3,0,0,0, 0,0,0,0, 0,0,0,0, 0,0,0,0, 0,0,0,0,
      4,0,0,0, 0x99,0,0,0, 0,0,0,0,
      8,0,0,0, 5,0,0,0, 0,0,0,0, 1,0,0,0,
      8,0,0,0, 5,0,0,0, 0,0,0,0, 0,0,0,0]"

definition trailing_stream :: "byte list" where
  "trailing_stream =
     [0x02,0x3D,0x50,0x54, 0,0,0,0, 1,0,0,0, 0,0,0,0, 0,0,0,0, 0,0,0,0, 0,0,0,0,
      12,0,0,0, 5,0,0,0, 0,0,0,1, 0,0,0,0, 0xAA,0xBB,0xCC,0xDD]"

definition mesh_stream :: "byte list" where
  "mesh_stream =
     [0x02,0x3D,0x50,0x54, 0,0,0,0, 1,0,0,0, 0,0,0,0, 0,0,0,0, 0,0,0,0, 0,0,0,0,
      0x64,0,0,0,0x36,0,0,0,0,0,0,1,0,0,0,0,
      0,0,0,0,0,0,0,0,0,0,0,0,0,0,0,0,
      0,0,0,0,0,0,0,0,0,0,0,0,0,0,0,0,
      0,0,0,0,0,0,0,0,0,0,0,0,0,0,0,0,
      0,0,0,0,0,0,0,0,0,0,0,0,0,0,0,0,
      0,0,0,0,0,0,0,0,0,0,1,0,0,0,0,0,
      0,0,0,0,0,0,0,0,0,0,0,0]"

definition trailing_w0 :: wld where
  "trailing_w0 = empty_wld\<lparr>buf := \<lparr>data = trailing_stream, pos = 28\<rparr>\<rparr>"

definition mesh_w0 :: wld where
  "mesh_w0 = empty_wld\<lparr>buf := \<lparr>data = mesh_stream, pos = 28\<rparr>\<rparr>"

definition chain_w0 :: wld where
  "chain_w0 = empty_wld\<lparr>buf := \<lparr>data = chain_stream, pos = 28\<rparr>\<rparr>"

text \<open>A cursor read whose only exception is the one of a read past the end.\<close>

definition truncates :: "(buffer \<Rightarrow> error + ('a \<times> buffer)) \<Rightarrow> bool" where
  "truncates reader = (\<forall>b e. reader b = Inl e \<longrightarrow> e = TruncatedDataError)"

definition mesh_wm :: wld where
  "mesh_wm = mesh_w0\<lparr>buf := \<lparr>data = mesh_stream, pos = 40\<rparr>\<rparr>"

definition trailing_w1 :: wld where
  "trailing_w1 =
     trailing_w0\<lparr>buf := \<lparr>data = trailing_stream, pos = 48\<rparr>,
       frags := [0 \<mapsto> \<lparr>frag_name = None, frag_type = 5, frag_value = PRef 0\<rparr>],
       names := [None \<mapsto> 0], byType := [5 \<mapsto> [0]],
       refs := (refs trailing_w0)(0 := \<lparr>ref_id = None, ref_name = Some [], ref_value = PNone\<rparr>),
       nrefs := 1\<rparr>"

text \<open>
  The decoder states of \<open>chain_stream\<close> after each of its three rounds, and
  \<open>forward_wld\<close>, a decoder with three fragments: a forward reference to fragment 2
  (type 0x05), a reference to that fragment (type 0x05), and a texture name list.
\<close>

definition chain_w1 :: wld where
  "chain_w1 =
     chain_w0\<lparr>buf := \<lparr>data = chain_stream, pos = 40\<rparr>,
       frags := [0 \<mapsto> \<lparr>frag_name = Some [], frag_type = 0x99, frag_value = PNone\<rparr>],
       byType := [0x99 \<mapsto> [0]]\<rparr>"

definition chain_w2 :: wld where
  "chain_w2 =
     chain_w1\<lparr>buf := \<lparr>data = chain_stream, pos = 56\<rparr>,
       frags := [0 \<mapsto> \<lparr>frag_name = Some [], frag_type = 0x99, frag_value = PNone\<rparr>,
                 1 \<mapsto> \<lparr>frag_name = Some [], frag_type = 5, frag_value = PRef 0\<rparr>],
       names := [Some [] \<mapsto> 1],
       byType := [0x99 \<mapsto> [0], 5 \<mapsto> [1]],
       refs := (refs chain_w0)(0 := \<lparr>ref_id = Some 0, ref_name = None, ref_value = PNone\<rparr>),
       nrefs := 1\<rparr>"

definition chain_w3 :: wld where
  "chain_w3 =
     chain_w2\<lparr>buf := \<lparr>data = chain_stream, pos = 72\<rparr>,
       frags := [0 \<mapsto> \<lparr>frag_name = Some [], frag_type = 0x99, frag_value = PNone\<rparr>,
                 1 \<mapsto> \<lparr>frag_name = Some [], frag_type = 5, frag_value = PRef 0\<rparr>,
                 2 \<mapsto> \<lparr>frag_name = Some [], frag_type = 5, frag_value = PRef 1\<rparr>],
       names := [Some [] \<mapsto> 2],
       byType := [0x99 \<mapsto> [0], 5 \<mapsto> [1, 2]],
       refs := (refs chain_w0)(0 := \<lparr>ref_id = Some 0, ref_name = None, ref_value = PNone\<rparr>,
                               1 := \<lparr>ref_id = None, ref_name = Some [], ref_value = PRef 0\<rparr>),
       nrefs := 2\<rparr>"

definition forward_wld :: wld where
  "forward_wld =
     empty_wld\<lparr>baked := True,
       frags := [0 \<mapsto> \<lparr>frag_name = None, frag_type = 5, frag_value = PRef 0\<rparr>,
                 1 \<mapsto> \<lparr>frag_name = None, frag_type = 5, frag_value = PRef 1\<rparr>,
                 2 \<mapsto> \<lparr>frag_name = None, frag_type = 3, frag_value = PList [PStr ''a.bmp'']\<rparr>],
       names := [None \<mapsto> 2],
       byType := [5 \<mapsto> [0, 1], 3 \<mapsto> [2]],
       refs := (refs empty_wld)(0 := \<lparr>ref_id = Some 2, ref_name = None, ref_value = PNone\<rparr>,
                                1 := \<lparr>ref_id = Some 0, ref_name = None, ref_value = PRef 0\<rparr>),
       nrefs := 2\<rparr>"

section \<open>The scene graph (zonefile.py)\<close>

text \<open>
  Modelled from the spec: \<open>zonefile.py\<close> (\<open>Zone\<close>, \<open>Material\<close>, \<open>Mesh\<close>,
  \<open>VertexBuffer\<close>) is not among the sources. Section 3 of the specification gives the
  scene graph: a Material is a flag set, a list of texture blobs and a parameter; a Mesh
  is a Material, a vertex buffer, a list of triangles and a collidability flag; an
  Object is a name and an ordered list of meshes; the Zone holds the world object
  (\<open>zone.zoneobj\<close>), the objects, the lights and the placeables, each an ordered list
  that \<open>addMesh\<close>, \<open>addObject\<close>, \<open>addLight\<close> and \<open>addPlaceable\<close> append to. The
  constructors store their arguments.
\<close>

record material =
  mat_flags :: pyval
  mat_textures :: "byte list list"
  mat_params :: pyval

record vertexbuffer =
  vb_data :: "pyval list"
  vb_count :: nat

record mesh =
  mesh_material :: material
  mesh_vbuf :: vertexbuffer
  mesh_polys :: "pyval list"
  mesh_collidable :: bool

record zone =
  zoneobj :: "mesh list"
  objects :: "(string \<times> mesh list) list"
  lights :: "(pyval \<times> pyval \<times> pyval \<times> pyval \<times> pyval) list"
  placeables :: "(string \<times> pyval \<times> pyval \<times> pyval) list"

text \<open>Where a mesh goes: the world object, or the object \<open>addObject\<close> returned.\<close>

datatype target = World | Object nat

definition addMesh :: "zone \<Rightarrow> target \<Rightarrow> mesh \<Rightarrow> zone" where
  "addMesh z t m =
     (case t of
        World \<Rightarrow> z\<lparr>zoneobj := zoneobj z @ [m]\<rparr>
      | Object k \<Rightarrow>
          (if k < length (objects z)
           then z\<lparr>objects := (objects z)[k := (fst (objects z ! k), snd (objects z ! k) @ [m])]\<rparr>
           else z))"

definition addObject :: "zone \<Rightarrow> string \<Rightarrow> nat \<times> zone" where
  "addObject z name = (length (objects z), z\<lparr>objects := objects z @ [(name, [])]\<rparr>)"

section \<open>The scene assembler (wld.py, utility.py)\<close>

subsection \<open>More operations on values\<close>

text \<open>
  Iteration (\<open>for x in v\<close>). A \<open>FragRef\<close> is iterated through \<open>__getitem__\<close>, which
  resolves it; what it resolves to is then indexed from 0, which a dict answers with
  \<open>KeyError\<close>.
\<close>

definition py_iter :: "wld \<Rightarrow> pyval \<Rightarrow> error + (pyval list \<times> wld)" where
  "py_iter w v =
     (case v of
        PRef a \<Rightarrow>
          (case resolve w a of
             Inl e \<Rightarrow> Inl e
           | Inr (v', w') \<Rightarrow>
               (case v' of
                  PStr s \<Rightarrow> Inr (map (\<lambda>c. PStr [c]) s, w')
                | PTuple xs \<Rightarrow> Inr (xs, w')
                | PList xs \<Rightarrow> Inr (xs, w')
                | PDict kvs \<Rightarrow> Inl KeyError
                | PObj i \<Rightarrow> Inl KeyError
                | _ \<Rightarrow> Inl TypeError))
      | PStr s \<Rightarrow> Inr (map (\<lambda>c. PStr [c]) s, w)
      | PTuple xs \<Rightarrow> Inr (xs, w)
      | PList xs \<Rightarrow> Inr (xs, w)
      | PDict kvs \<Rightarrow> Inr (map (\<lambda>kv. PStr (fst kv)) kvs, w)
      | PObj i \<Rightarrow> Inr (map (\<lambda>kv. PStr (fst kv)) (obj_items w i), w)
      | _ \<Rightarrow> Inl TypeError)"

text \<open>
  An integer operand. \<open>count\<close> and \<open>index\<close> of a polygon run are the unsigned shorts
  that \<open>frag_mesh\<close> reads; a value of another type in their place is reported as
  \<open>TypeError\<close> where the run first uses it as a number.
\<close>

definition as_int :: "pyval \<Rightarrow> error + int" where
  "as_int v =
     (case v of
        PInt i \<Rightarrow> Inr i
      | PBool b \<Rightarrow> Inr (if b then 1 else 0)
      | _ \<Rightarrow> Inl TypeError)"

text \<open>
  The truth value of \<open>v\<close> (\<open>if v\<close>): a \<open>FragRef\<close> has \<open>__len__\<close>, so it is true when
  what it resolves to has a length other than 0.
\<close>

definition truthy :: "wld \<Rightarrow> pyval \<Rightarrow> error + (bool \<times> wld)" where
  "truthy w v =
     (case v of
        PNone \<Rightarrow> Inr (False, w)
      | PBool b \<Rightarrow> Inr (b, w)
      | PInt i \<Rightarrow> Inr (i \<noteq> 0, w)
      | PFloat f \<Rightarrow> Inr (fexpr_real f \<noteq> 0, w)
      | PRef a \<Rightarrow> (case py_len w v of Inl e \<Rightarrow> Inl e | Inr (n, w') \<Rightarrow> Inr (n \<noteq> 0, w'))
      | _ \<Rightarrow> (case len_plain w v of Inl e \<Rightarrow> Inl e | Inr n \<Rightarrow> Inr (n \<noteq> 0, w)))"

text \<open>
  \<open>xs[lo:hi]\<close> on a list, with Python's clamping of the bounds. The polygons of a
  mesh are the list \<open>frag_mesh\<close> builds; a tuple or a string is sliced alike, anything
  else is reported as \<open>TypeError\<close>.
\<close>

definition slice_bound :: "nat \<Rightarrow> int \<Rightarrow> nat" where
  "slice_bound n k = (if k < 0 then nat (max 0 (int n + k)) else min n (nat k))"

definition list_slice :: "'a list \<Rightarrow> int \<Rightarrow> int \<Rightarrow> 'a list" where
  "list_slice xs lo hi =
     (let l = slice_bound (length xs) lo; h = slice_bound (length xs) hi
      in take (h - l) (drop l xs))"

definition py_slice :: "wld \<Rightarrow> pyval \<Rightarrow> int \<Rightarrow> int \<Rightarrow> error + (pyval \<times> wld)" where
  "py_slice w v lo hi =
     (case (case v of
              PRef a \<Rightarrow> resolve w a
            | _ \<Rightarrow> Inr (v, w)) of
        Inl e \<Rightarrow> Inl e
      | Inr (v', w') \<Rightarrow>
          (case v' of
             PList xs \<Rightarrow> Inr (PList (list_slice xs lo hi), w')
           | PTuple xs \<Rightarrow> Inr (PTuple (list_slice xs lo hi), w')
           | PStr s \<Rightarrow> Inr (PStr (list_slice s lo hi), w')
           | _ \<Rightarrow> Inl TypeError))"

text \<open>\<open>str(n)\<close> for the integers in the diagnostic keys.\<close>

function show_nat :: "nat \<Rightarrow> string" where
  "show_nat n = (if n < 10 then [char_of (48 + n)] else show_nat (n div 10) @ [char_of (48 + n mod 10)])"
  by pat_completeness auto
termination
  by (relation "measure id") auto

definition show_int :: "int \<Rightarrow> string" where
  "show_int i = (if i < 0 then CHR ''-'' # show_nat (nat (- i)) else show_nat (nat i))"

text \<open>\<open>s.replace(pat, "")\<close>: the occurrences of \<open>pat\<close> are removed from left to right.\<close>

function remove_sub :: "string \<Rightarrow> string \<Rightarrow> string" where
  "remove_sub pat s =
     (if s = [] \<or> pat = [] then s
      else if take (length pat) s = pat then remove_sub pat (drop (length pat) s)
      else hd s # remove_sub pat (tl s))"
  by pat_completeness auto
termination
  by (relation "measure (\<lambda>(pat, s). length s)") auto

subsection \<open>utility.py\<close>

text \<open>
  \<open>interleave(*lists)\<close> is \<open>list(chain.from_iterable(zip(*lists)))\<close>; the assembler
  calls it with three lists.
\<close>

definition interleave :: "pyval list \<Rightarrow> pyval list \<Rightarrow> pyval list \<Rightarrow> pyval list" where
  "interleave xs ys zs = concat (map (\<lambda>(x, y, z). [x, y, z]) (zip xs (zip ys zs)))"

text \<open>
  \<open>flatten\<close>:
  \<^verbatim>\<open>while len(x) and isinstance(x[0], (tuple, list)):
      x = [item for sub in x for item in sub]
  return x\<close>
  The items of \<open>sub\<close> are those of a tuple, a list, a string or a dict; an element
  that is a reference is not among what the assembler flattens (the vertex arrays of
  \<open>frag_mesh\<close>) and is reported as \<open>TypeError\<close> like the values that cannot be
  iterated. Each round removes the outer tuple or list of \<open>x[0]\<close>, so the loop ends:
  \<open>nesting\<close> counts the tuples and lists in a value.
\<close>

fun sub_items :: "pyval \<Rightarrow> error + pyval list" where
  "sub_items (PStr s) = Inr (map (\<lambda>c. PStr [c]) s)"
| "sub_items (PTuple xs) = Inr xs"
| "sub_items (PList xs) = Inr xs"
| "sub_items (PDict kvs) = Inr (map (\<lambda>kv. PStr (fst kv)) kvs)"
| "sub_items _ = Inl TypeError"

fun flatten_round :: "pyval list \<Rightarrow> error + pyval list" where
  "flatten_round [] = Inr []"
| "flatten_round (sub # rest) =
     (case sub_items sub of
        Inl e \<Rightarrow> Inl e
      | Inr items \<Rightarrow>
          (case flatten_round rest of
             Inl e \<Rightarrow> Inl e
           | Inr others \<Rightarrow> Inr (items @ others)))"

fun nesting :: "pyval \<Rightarrow> nat" where
  "nesting (PTuple xs) = Suc (sum_list (map nesting xs))"
| "nesting (PList xs) = Suc (sum_list (map nesting xs))"
| "nesting _ = 0"

definition is_seq :: "pyval \<Rightarrow> bool" where
  "is_seq v = (case v of PTuple xs \<Rightarrow> True | PList xs \<Rightarrow> True | _ \<Rightarrow> False)"

lemma sub_items_nesting:
  "sub_items v = Inr items \<Longrightarrow>
     sum_list (map nesting items) \<le> nesting v \<and> (is_seq v \<longrightarrow> sum_list (map nesting items) < nesting v)"
  by (cases v) (auto simp: is_seq_def comp_def)

lemma flatten_round_nesting:
  "flatten_round x = Inr x' \<Longrightarrow> sum_list (map nesting x') \<le> sum_list (map nesting x)"
proof (induction x arbitrary: x')
  case Nil
  then show ?case by simp
next
  case (Cons sub rest)
  then obtain items others where s: "sub_items sub = Inr items" "flatten_round rest = Inr others"
    "x' = items @ others"
    by (auto split: sum.splits)
  from sub_items_nesting[OF s(1)] Cons.IH[OF s(2)] s(3) show ?case by simp
qed

function flatten :: "pyval list \<Rightarrow> error + pyval list" where
  "flatten x =
     (if x \<noteq> [] \<and> is_seq (hd x) then
        (case flatten_round x of
           Inl e \<Rightarrow> Inl e
         | Inr x' \<Rightarrow> flatten x')
      else Inr x)"
  by pat_completeness auto
termination
proof (relation "measure (\<lambda>x. sum_list (map nesting x))")
  show "wf (measure (\<lambda>x. sum_list (map nesting x)))" by simp
next
  fix x x' :: "pyval list"
  assume a: "x \<noteq> [] \<and> is_seq (hd x)" and r: "flatten_round x = Inr x'"
  from a obtain sub rest where x: "x = sub # rest" "is_seq sub" by (cases x) auto
  with r obtain items others where s: "sub_items sub = Inr items" "flatten_round rest = Inr others"
    "x' = items @ others"
    by (auto split: sum.splits)
  from sub_items_nesting[OF s(1)] x(2) flatten_round_nesting[OF s(2)] s(3) x(1)
  show "(x', x) \<in> measure (\<lambda>x. sum_list (map nesting x))" by simp
qed

subsection \<open>Shared by \<open>convertZone\<close> and \<open>convertObjects\<close>\<close>

text \<open>
  What \<open>self.byType[ty]\<close> holds for fragment \<open>i\<close>: the tuple \<open>(i, name, type, frag)\<close>
  before the rebake pass, \<open>frag\<close> after it.
\<close>

definition byType_item :: "wld \<Rightarrow> nat \<Rightarrow> error + pyval" where
  "byType_item w i =
     (case frags_value w i of
        Inl e \<Rightarrow> Inl e
      | Inr v \<Rightarrow>
          if baked w then Inr v
          else (case frags w i of
                  None \<Rightarrow> Inl KeyError
                | Some f \<Rightarrow> Inr (PTuple [PInt (int i), name_val (frag_name f), PInt (int (frag_type f)), v])))"

text \<open>
  \<open>self.texture_warnings[key] = self.texture_warnings.get(key, 0) + 1\<close>, and the key
  \<open>f"{site}_idx{index}_avail{avail}"\<close>, in which an \<open>int\<close> is printed in decimal and
  a \<open>bool\<close> as \<open>True\<close> or \<open>False\<close> (an index of another type has raised at the
  comparison before the key is made).
\<close>

definition warn :: "wld \<Rightarrow> string \<Rightarrow> wld" where
  "warn w key =
     w\<lparr>texture_warnings :=
         (texture_warnings w)(key \<mapsto> (case texture_warnings w key of None \<Rightarrow> 0 | Some c \<Rightarrow> c) + 1)\<rparr>"

definition index_text :: "pyval \<Rightarrow> string" where
  "index_text index =
     (case index of
        PInt i \<Rightarrow> show_int i
      | PBool t \<Rightarrow> (if t then ''True'' else ''False'')
      | _ \<Rightarrow> [])"

definition warning_key :: "string \<Rightarrow> pyval \<Rightarrow> nat \<Rightarrow> string" where
  "warning_key site index avail = site @ ''_idx'' @ index_text index @ ''_avail'' @ show_nat avail"

text \<open>
  The vertex buffer of a mesh fragment:
  \<^verbatim>\<open>vbuf = VertexBuffer(
      flatten(interleave(meshfrag["vertices"], meshfrag["normals"], meshfrag["texcoords"])),
      len(meshfrag["vertices"]))\<close>
\<close>

definition make_vbuf :: "wld \<Rightarrow> pyval \<Rightarrow> error + (vertexbuffer \<times> wld)" where
  "make_vbuf w meshfrag =
     (case subscript_key w meshfrag ''vertices'' of
        Inl e \<Rightarrow> Inl e
      | Inr (vs, w1) \<Rightarrow>
          (case subscript_key w1 meshfrag ''normals'' of
             Inl e \<Rightarrow> Inl e
           | Inr (ns, w2) \<Rightarrow>
               (case subscript_key w2 meshfrag ''texcoords'' of
                  Inl e \<Rightarrow> Inl e
                | Inr (ts, w3) \<Rightarrow>
                    (case py_iter w3 vs of
                       Inl e \<Rightarrow> Inl e
                     | Inr (vl, w4) \<Rightarrow>
                         (case py_iter w4 ns of
                            Inl e \<Rightarrow> Inl e
                          | Inr (nl, w5) \<Rightarrow>
                              (case py_iter w5 ts of
                                 Inl e \<Rightarrow> Inl e
                               | Inr (tcl, w6) \<Rightarrow>
                                   (case flatten (interleave vl nl tcl) of
                                      Inl e \<Rightarrow> Inl e
                                    | Inr flat \<Rightarrow>
                                        (case subscript_key w6 meshfrag ''vertices'' of
                                           Inl e \<Rightarrow> Inl e
                                         | Inr (vs', w7) \<Rightarrow>
                                             (case py_len w7 vs' of
                                                Inl e \<Rightarrow> Inl e
                                              | Inr (n, w8) \<Rightarrow>
                                                  Inr (\<lparr>vb_data = flat, vb_count = n\<rparr>, w8))))))))))"

text \<open>\<open>len(meshfrag["textures"])\<close> and \<open>meshfrag["textures"][k]\<close>.\<close>

definition mesh_textures_len :: "wld \<Rightarrow> pyval \<Rightarrow> error + (nat \<times> wld)" where
  "mesh_textures_len w meshfrag =
     (case subscript_key w meshfrag ''textures'' of
        Inl e \<Rightarrow> Inl e
      | Inr (t, w1) \<Rightarrow> py_len w1 t)"

definition mesh_texture :: "wld \<Rightarrow> pyval \<Rightarrow> int \<Rightarrow> error + (pyval \<times> wld)" where
  "mesh_texture w meshfrag k =
     (case subscript_key w meshfrag ''textures'' of
        Inl e \<Rightarrow> Inl e
      | Inr (t, w1) \<Rightarrow> subscript_int w1 t k)"

text \<open>
  \<open>texname[0].lower()\<close>, the loop that looks for sky textures (it prints, and
  evaluates \<open>texname[0].lower()\<close> for every name), and
  \<open>[self.s3d[texname[0].lower()] for texname in texnames]\<close>.
\<close>

definition texname_lower :: "wld \<Rightarrow> pyval \<Rightarrow> error + (string \<times> wld)" where
  "texname_lower w texname =
     (case subscript_int w texname 0 of
        Inl e \<Rightarrow> Inl e
      | Inr (x, w1) \<Rightarrow> (case x of PStr s \<Rightarrow> Inr (py_lower s, w1) | _ \<Rightarrow> Inl AttributeError))"


fun texture_blobs :: "wld \<Rightarrow> pyval list \<Rightarrow> error + (byte list list \<times> wld)" where
  "texture_blobs w [] = Inr ([], w)"
| "texture_blobs w (texname # rest) =
     (case texname_lower w texname of
        Inl e \<Rightarrow> Inl e
      | Inr (key, w1) \<Rightarrow>
          (case s3d w1 key of
             None \<Rightarrow> Inl KeyError
           | Some blob \<Rightarrow>
               (case texture_blobs w1 rest of
                  Inl e \<Rightarrow> Inl e
                | Inr (blobs, w2) \<Rightarrow> Inr (blob # blobs, w2))))"

text \<open>
  \<open>[x for c, x in meshfrag["polys"][off : off + count] if c]\<close> (\<open>want\<close> true) and
  the same with \<open>if not c\<close> (\<open>want\<close> false).
\<close>

fun select_polys :: "wld \<Rightarrow> pyval list \<Rightarrow> bool \<Rightarrow> error + (pyval list \<times> wld)" where
  "select_polys w [] want = Inr ([], w)"
| "select_polys w (p # rest) want =
     (case unpack2 w p of
        Inl e \<Rightarrow> Inl e
      | Inr ((c, x), w1) \<Rightarrow>
          (case truthy w1 c of
             Inl e \<Rightarrow> Inl e
           | Inr (t, w2) \<Rightarrow>
               (case select_polys w2 rest want of
                  Inl e \<Rightarrow> Inl e
                | Inr (xs, w3) \<Rightarrow> Inr (if t = want then x # xs else xs, w3))))"

definition run_polys :: "wld \<Rightarrow> pyval \<Rightarrow> int \<Rightarrow> pyval \<Rightarrow> bool \<Rightarrow> error + (pyval list \<times> wld)" where
  "run_polys w meshfrag off count want =
     (case subscript_key w meshfrag ''polys'' of
        Inl e \<Rightarrow> Inl e
      | Inr (polys, w1) \<Rightarrow>
          (case as_int count of
             Inl e \<Rightarrow> Inl e
           | Inr cnt \<Rightarrow>
               (case py_slice w1 polys off (off + cnt) of
                  Inl e \<Rightarrow> Inl e
                | Inr (sl, w2) \<Rightarrow>
                    (case py_iter w2 sl of
                       Inl e \<Rightarrow> Inl e
                     | Inr (items, w3) \<Rightarrow> select_polys w3 items want))))"

text \<open>
  The end of a run that has a material, the same statements at all three places
  where the source reaches them:
  \<^verbatim>\<open>collidablePolys = [x for c, x in meshfrag["polys"][off : off + count] if c]
  noncollidablePolys = [x for c, x in meshfrag["polys"][off : off + count] if not c]
  if len(collidablePolys):
      mesh = Mesh(material, vbuf, collidablePolys, collidable=True)
      zone.zoneobj.addMesh(mesh)
  if len(noncollidablePolys):
      mesh = Mesh(material, vbuf, noncollidablePolys, collidable=False)
      zone.zoneobj.addMesh(mesh)\<close>
  (\<open>obj.addMesh\<close> in \<open>convertObjects\<close>.)
\<close>

definition add_run_meshes ::
  "wld \<Rightarrow> zone \<Rightarrow> target \<Rightarrow> pyval \<Rightarrow> vertexbuffer \<Rightarrow> material \<Rightarrow> int \<Rightarrow> pyval \<Rightarrow> error + (zone \<times> wld)" where
  "add_run_meshes w z t meshfrag vbuf mat off count =
     (case run_polys w meshfrag off count True of
        Inl e \<Rightarrow> Inl e
      | Inr (collidablePolys, w1) \<Rightarrow>
          (case run_polys w1 meshfrag off count False of
             Inl e \<Rightarrow> Inl e
           | Inr (noncollidablePolys, w2) \<Rightarrow>
               (let z1 = (if collidablePolys \<noteq> []
                          then addMesh z t \<lparr>mesh_material = mat, mesh_vbuf = vbuf,
                                             mesh_polys = collidablePolys, mesh_collidable = True\<rparr>
                          else z);
                    z2 = (if noncollidablePolys \<noteq> []
                          then addMesh z1 t \<lparr>mesh_material = mat, mesh_vbuf = vbuf,
                                              mesh_polys = noncollidablePolys, mesh_collidable = False\<rparr>
                          else z1)
                in Inr (z2, w2))))"

text \<open>\<open>off += count\<close>.\<close>

definition advance :: "int \<Rightarrow> pyval \<Rightarrow> error + int" where
  "advance off count = (case as_int count of Inl e \<Rightarrow> Inl e | Inr cnt \<Rightarrow> Inr (off + cnt))"

subsection \<open>\<open>Wld.convertZone\<close>\<close>









subsection \<open>\<open>Wld.convertObjects\<close>\<close>

definition is_dict :: "pyval \<Rightarrow> bool" where
  "is_dict v = (case v of PDict kvs \<Rightarrow> True | PObj i \<Rightarrow> True | _ \<Rightarrow> False)"

text \<open>
  \<open>texnames = d["textures"]; params = d["params"]\<close> for a dict \<open>d\<close>, with the
  \<open>texflags\<close> in force.
\<close>

definition dict_texinfo :: "wld \<Rightarrow> pyval \<Rightarrow> pyval \<Rightarrow> error + (pyval \<times> pyval \<times> pyval) option" where
  "dict_texinfo w texflags d =
     (case key_plain w d ''textures'' of
        Inl e \<Rightarrow> Inl e
      | Inr texnames \<Rightarrow>
          (case key_plain w d ''params'' of
             Inl e \<Rightarrow> Inl e
           | Inr params \<Rightarrow> Inr (Some (texflags, texnames, params))))"

text \<open>
  The chain of \<open>isinstance\<close> and \<open>hasattr\<close> tests on \<open>mtex\<close> (lines 252-304): the
  result is \<open>(texflags, texnames, params)\<close>, or \<open>None\<close> where the source skips the run
  (\<open>off += count; continue\<close>). Only a \<open>FragRef\<close> has the attribute \<open>value\<close>, and
  reading it does not resolve.
\<close>

definition objects_texinfo :: "wld \<Rightarrow> pyval \<Rightarrow> pyval \<Rightarrow> error + (pyval \<times> pyval \<times> pyval) option" where
  "objects_texinfo w texflags mtex =
     (if is_dict mtex then dict_texinfo w texflags mtex
      else case mtex of
        PList nms \<Rightarrow> Inr (Some (texflags, PList (map (\<lambda>name. PTuple [name]) nms), PInt 0))
      | PRef a \<Rightarrow>
          (let resolved_mtex = ref_value (refs w a)
           in if is_dict resolved_mtex then dict_texinfo w texflags resolved_mtex
              else case resolved_mtex of
                PTuple [texflags', inner_fragref] \<Rightarrow>
                  (case inner_fragref of
                     PRef b \<Rightarrow>
                       (let inner_resolved = ref_value (refs w b)
                        in if is_dict inner_resolved then dict_texinfo w texflags' inner_resolved
                           else case inner_resolved of
                             PRef c \<Rightarrow>
                               (let deep_resolved = ref_value (refs w c)
                                in if is_dict deep_resolved then dict_texinfo w texflags' deep_resolved
                                   else Inr None)
                           | _ \<Rightarrow> Inr None)
                   | _ \<Rightarrow> Inr None)
              | _ \<Rightarrow> Inr None)
      | _ \<Rightarrow> Inr None)"

text \<open>
  The \<open>try\<close> block (lines 236-249):
  \<^verbatim>\<open>try:
      texture_item = meshfrag["textures"][index]
      if isinstance(texture_item, tuple) and len(texture_item) == 2:
          texflags, mtex = texture_item
      else:
          texflags = 0
          mtex = texture_item
  except (KeyError, IndexError) as e:
      off += count
      continue\<close>
  \<open>None\<close> is the \<open>except\<close> branch. When it is taken the decoder is as it was before
  the \<open>try\<close>: the texture list was resolved by the \<open>len\<close> of the run's first test,
  and resolving it again changes nothing.
\<close>

definition objects_texture_item :: "wld \<Rightarrow> pyval \<Rightarrow> int \<Rightarrow> error + ((pyval \<times> pyval) option \<times> wld)" where
  "objects_texture_item w meshfrag index =
     (case mesh_texture w meshfrag index of
        Inl e \<Rightarrow> if e = KeyError \<or> e = IndexError then Inr (None, w) else Inl e
      | Inr (texture_item, w1) \<Rightarrow>
          (case texture_item of
             PTuple [texflags, mtex] \<Rightarrow> Inr (Some (texflags, mtex), w1)
           | _ \<Rightarrow> Inr (Some (PInt 0, texture_item), w1)))"

text \<open>
  One run of \<open>convertObjects\<close> (lines 226-325). The out-of-range branch counts the
  run and skips it:
  \<^verbatim>\<open>if index >= len(meshfrag["textures"]):
      key = f"convertObjects_idx{index}_avail{len(meshfrag['textures'])}"
      self.texture_warnings[key] = self.texture_warnings.get(key, 0) + 1
      off += count
      continue\<close>
\<close>

definition convertObjects_run ::
  "wld \<Rightarrow> zone \<Rightarrow> nat \<Rightarrow> pyval \<Rightarrow> vertexbuffer \<Rightarrow> int \<Rightarrow> pyval \<Rightarrow> pyval \<Rightarrow> error + (int \<times> zone \<times> wld)" where
  "convertObjects_run w z obj meshfrag vbuf off count index =
     (case mesh_textures_len w meshfrag of
        Inl e \<Rightarrow> Inl e
      | Inr (n, w1) \<Rightarrow>
          (case as_int index of
             Inl e \<Rightarrow> Inl e
           | Inr idx \<Rightarrow>
               if idx \<ge> int n then
                 (case mesh_textures_len w1 meshfrag of
                    Inl e \<Rightarrow> Inl e
                  | Inr (n1, w2) \<Rightarrow>
                      (case advance off count of
                         Inl e \<Rightarrow> Inl e
                       | Inr off' \<Rightarrow> Inr (off', z, warn w2 (warning_key ''convertObjects'' index n1))))
               else
                 (case objects_texture_item w1 meshfrag idx of
                    Inl e \<Rightarrow> Inl e
                  | Inr (None, w2) \<Rightarrow>
                      (case advance off count of
                         Inl e \<Rightarrow> Inl e
                       | Inr off' \<Rightarrow> Inr (off', z, w2))
                  | Inr (Some (texflags, mtex), w2) \<Rightarrow>
                      (case objects_texinfo w2 texflags mtex of
                         Inl e \<Rightarrow> Inl e
                       | Inr None \<Rightarrow>
                           (case advance off count of
                              Inl e \<Rightarrow> Inl e
                            | Inr off' \<Rightarrow> Inr (off', z, w2))
                       | Inr (Some (texflags', texnames, params)) \<Rightarrow>
                           (case py_iter w2 texnames of
                              Inl e \<Rightarrow> Inl e
                            | Inr (tnl, w3) \<Rightarrow>
                                (case texture_blobs w3 tnl of
                                   Inl e \<Rightarrow> Inl e
                                 | Inr (blobs, w4) \<Rightarrow>
                                     (case add_run_meshes w4 z (Object obj) meshfrag vbuf
                                             \<lparr>mat_flags = texflags', mat_textures = blobs, mat_params = params\<rparr>
                                             off count of
                                        Inl e \<Rightarrow> Inl e
                                      | Inr (z', w5) \<Rightarrow>
                                          (case advance off count of
                                             Inl e \<Rightarrow> Inl e
                                           | Inr off' \<Rightarrow> Inr (off', z', w5)))))))))"

fun convertObjects_runs ::
  "wld \<Rightarrow> zone \<Rightarrow> nat \<Rightarrow> pyval \<Rightarrow> vertexbuffer \<Rightarrow> int \<Rightarrow> pyval list \<Rightarrow> error + (zone \<times> wld)" where
  "convertObjects_runs w z obj meshfrag vbuf off [] = Inr (z, w)"
| "convertObjects_runs w z obj meshfrag vbuf off (run # rest) =
     (case unpack2 w run of
        Inl e \<Rightarrow> Inl e
      | Inr ((count, index), w1) \<Rightarrow>
          (case convertObjects_run w1 z obj meshfrag vbuf off count index of
             Inl e \<Rightarrow> Inl e
           | Inr (off', z', w2) \<Rightarrow> convertObjects_runs w2 z' obj meshfrag vbuf off' rest))"

text \<open>
  A mesh fragment of \<open>convertObjects\<close>:
  \<^verbatim>\<open>obj_name = meshfrag["_name"].replace("_DMSPRITEDEF", "")
  obj = zone.addObject(obj_name)
  vbuf = ...
  off = 0
  for count, index in meshfrag["polytex"]: ...\<close>
\<close>

definition convertObjects_mesh :: "wld \<Rightarrow> zone \<Rightarrow> pyval \<Rightarrow> error + (zone \<times> wld)" where
  "convertObjects_mesh w z meshfrag =
     (case subscript_key w meshfrag ''_name'' of
        Inl e \<Rightarrow> Inl e
      | Inr (nm, w1) \<Rightarrow>
          (case nm of
             PStr s \<Rightarrow>
               (case addObject z (remove_sub ''_DMSPRITEDEF'' s) of
                  (obj, z1) \<Rightarrow>
                    (case make_vbuf w1 meshfrag of
                       Inl e \<Rightarrow> Inl e
                     | Inr (vbuf, w2) \<Rightarrow>
                         (case subscript_key w2 meshfrag ''polytex'' of
                            Inl e \<Rightarrow> Inl e
                          | Inr (polytex, w3) \<Rightarrow>
                              (case py_iter w3 polytex of
                                 Inl e \<Rightarrow> Inl e
                               | Inr (runs, w4) \<Rightarrow> convertObjects_runs w4 z1 obj meshfrag vbuf 0 runs))))
           | _ \<Rightarrow> Inl AttributeError))"

fun convertObjects_meshes :: "wld \<Rightarrow> zone \<Rightarrow> nat list \<Rightarrow> error + (zone \<times> wld)" where
  "convertObjects_meshes w z [] = Inr (z, w)"
| "convertObjects_meshes w z (i # rest) =
     (case byType_item w i of
        Inl e \<Rightarrow> Inl e
      | Inr meshfrag \<Rightarrow>
          (case convertObjects_mesh w z meshfrag of
             Inl e \<Rightarrow> Inl e
           | Inr (z', w') \<Rightarrow> convertObjects_meshes w' z' rest))"

text \<open>
  The placements:
  \<^verbatim>\<open>for objfrag in self.byType[0x15]:
      objname = self.getString(-objfrag["nameoff"]).replace("_ACTORDEF", "")
      zone.addPlaceable(objname, objfrag["position"], objfrag["rotation"], objfrag["scale"])\<close>
\<close>

definition convertObjects_placeable :: "wld \<Rightarrow> zone \<Rightarrow> pyval \<Rightarrow> error + (zone \<times> wld)" where
  "convertObjects_placeable w z objfrag =
     (case subscript_key w objfrag ''nameoff'' of
        Inl e \<Rightarrow> Inl e
      | Inr (nameoff, w1) \<Rightarrow>
          (case as_int nameoff of
             Inl e \<Rightarrow> Inl e
           | Inr off \<Rightarrow>
               (case subscript_key w1 objfrag ''position'' of
                  Inl e \<Rightarrow> Inl e
                | Inr (position, w2) \<Rightarrow>
                    (case subscript_key w2 objfrag ''rotation'' of
                       Inl e \<Rightarrow> Inl e
                     | Inr (rotation, w3) \<Rightarrow>
                         (case subscript_key w3 objfrag ''scale'' of
                            Inl e \<Rightarrow> Inl e
                          | Inr (scl, w4) \<Rightarrow>
                              Inr (z\<lparr>placeables := placeables z
                                       @ [(remove_sub ''_ACTORDEF'' (getString w1 (- off)), position, rotation, scl)]\<rparr>,
                                   w4))))))"

fun convertObjects_placeables :: "wld \<Rightarrow> zone \<Rightarrow> nat list \<Rightarrow> error + (zone \<times> wld)" where
  "convertObjects_placeables w z [] = Inr (z, w)"
| "convertObjects_placeables w z (i # rest) =
     (case byType_item w i of
        Inl e \<Rightarrow> Inl e
      | Inr objfrag \<Rightarrow>
          (case convertObjects_placeable w z objfrag of
             Inl e \<Rightarrow> Inl e
           | Inr (z', w') \<Rightarrow> convertObjects_placeables w' z' rest))"

definition convertObjects :: "wld \<Rightarrow> zone \<Rightarrow> error + (zone \<times> wld)" where
  "convertObjects w z =
     (case (case byType w 0x36 of
              None \<Rightarrow> Inr (z, w)
            | Some idxs \<Rightarrow> convertObjects_meshes w z idxs) of
        Inl e \<Rightarrow> Inl e
      | Inr (z1, w1) \<Rightarrow>
          (case byType w1 0x15 of
             None \<Rightarrow> Inr (z1, w1)
           | Some idxs \<Rightarrow> convertObjects_placeables w1 z1 idxs))"

subsection \<open>\<open>Wld.convertLights\<close>\<close>

text \<open>
  \<^verbatim>\<open>for light in self.byType[0x28]:
      light["light"] = light["light"].resolve()
      zone.addLight(light["position"], light["radius"],
                    light["light"]["attenuation"], light["light"]["color"],
                    light["flags"])\<close>
  \<open>light\<close> is a fragment's dict, \<open>PObj j\<close>, and the assignment is made in the
  fragment table. Only a \<open>FragRef\<close> has \<open>resolve\<close>; a value that is not a dict has no
  item assignment.
\<close>

definition convertLights_light :: "wld \<Rightarrow> zone \<Rightarrow> pyval \<Rightarrow> error + (zone \<times> wld)" where
  "convertLights_light w z light =
     (case subscript_key w light ''light'' of
        Inl e \<Rightarrow> Inl e
      | Inr (lref, w1) \<Rightarrow>
          (case lref of
             PRef a \<Rightarrow>
               (case resolve w1 a of
                  Inl e \<Rightarrow> Inl e
                | Inr (v, w2) \<Rightarrow>
                    (case light of
                       PObj j \<Rightarrow>
                         (let w3 = obj_set w2 j ''light'' v
                          in case subscript_key w3 light ''position'' of
                               Inl e \<Rightarrow> Inl e
                             | Inr (position, w4) \<Rightarrow>
                                 (case subscript_key w4 light ''radius'' of
                                    Inl e \<Rightarrow> Inl e
                                  | Inr (radius, w5) \<Rightarrow>
                                      (case subscript_key w5 light ''light'' of
                                         Inl e \<Rightarrow> Inl e
                                       | Inr (l1, w6) \<Rightarrow>
                                           (case subscript_key w6 l1 ''attenuation'' of
                                              Inl e \<Rightarrow> Inl e
                                            | Inr (attenuation, w7) \<Rightarrow>
                                                (case subscript_key w7 light ''light'' of
                                                   Inl e \<Rightarrow> Inl e
                                                 | Inr (l2, w8) \<Rightarrow>
                                                     (case subscript_key w8 l2 ''color'' of
                                                        Inl e \<Rightarrow> Inl e
                                                      | Inr (color, w9) \<Rightarrow>
                                                          (case subscript_key w9 light ''flags'' of
                                                             Inl e \<Rightarrow> Inl e
                                                           | Inr (flags, w10) \<Rightarrow>
                                                               Inr (z\<lparr>lights := lights z
                                                                        @ [(position, radius, attenuation, color, flags)]\<rparr>,
                                                                    w10))))))))
                     | _ \<Rightarrow> Inl TypeError))
           | _ \<Rightarrow> Inl AttributeError))"

fun convertLights_loop :: "wld \<Rightarrow> zone \<Rightarrow> nat list \<Rightarrow> error + (zone \<times> wld)" where
  "convertLights_loop w z [] = Inr (z, w)"
| "convertLights_loop w z (i # rest) =
     (case byType_item w i of
        Inl e \<Rightarrow> Inl e
      | Inr light \<Rightarrow>
          (case convertLights_light w z light of
             Inl e \<Rightarrow> Inl e
           | Inr (z', w') \<Rightarrow> convertLights_loop w' z' rest))"

definition convertLights :: "wld \<Rightarrow> zone \<Rightarrow> error + (zone \<times> wld)" where
  "convertLights w z =
     (case byType w 0x28 of
        None \<Rightarrow> Inl KeyError
      | Some idxs \<Rightarrow> convertLights_loop w z idxs)"

subsection \<open>What an operation leaves unchanged\<close>

text \<open>
  \<open>refs_only w w'\<close>: the decoder \<open>w'\<close> differs from \<open>w\<close> at most in the reference
  heap, that is, in the \<open>value\<close> attributes of \<open>FragRef\<close> objects.
\<close>

definition refs_only :: "wld \<Rightarrow> wld \<Rightarrow> bool" where
  "refs_only w w' =
     (buf w' = buf w \<and> s3d w' = s3d w \<and> texture_warnings w' = texture_warnings w
      \<and> old w' = old w \<and> stringTable w' = stringTable w \<and> baked w' = baked w
      \<and> frags w' = frags w \<and> names w' = names w \<and> byType w' = byType w
      \<and> nrefs w' = nrefs w)"

text \<open>
  \<open>same_tables w w'\<close>: \<open>w'\<close> differs from \<open>w\<close> at most in the reference heap and in
  the diagnostic counters; the cursor, the fragment table and the two indexes of it
  are the same.
\<close>

definition same_tables :: "wld \<Rightarrow> wld \<Rightarrow> bool" where
  "same_tables w w' =
     (buf w' = buf w \<and> s3d w' = s3d w
      \<and> old w' = old w \<and> stringTable w' = stringTable w \<and> baked w' = baked w
      \<and> frags w' = frags w \<and> names w' = names w \<and> byType w' = byType w
      \<and> nrefs w' = nrefs w)"

section \<open>Example decoders for the assembler\<close>












section \<open>Properties of the archive reader\<close>

declare readS3D_chunks.simps [simp del]

lemma read_Inr: "read b n = Inr (bs, b') \<Longrightarrow>
    data b' = data b \<and> pos b' = pos b + n \<and> bs = take n (drop (pos b) (data b)) \<and> pos b + n \<le> length (data b)"
  by (auto simp: read_def split: if_splits)

lemma uint_b_Inr: "uint_b b = Inr (n, b') \<Longrightarrow>
    data b' = data b \<and> pos b' = pos b + 4 \<and> n = le_nat (take 4 (drop (pos b) (data b)))"
  by (auto simp: uint_b_def split: sum.splits dest: read_Inr)

lemma chunks_data: "readS3D_chunks dec tsize dat b = Inr (dat', b') \<Longrightarrow> data b' = data b"
proof (induction dec tsize dat b rule: readS3D_chunks.induct)
  case (1 dec tsize dat b)
  show ?case
  proof (cases "length dat < tsize")
    case False
    with "1.prems" show ?thesis by (simp add: readS3D_chunks.simps)
  next
    case True
    with "1.prems" obtain deflen b1 inflen b2 chunk b3 out where
      s: "uint_b b = Inr (deflen, b1)" "uint_b b1 = Inr (inflen, b2)" "read b2 deflen = Inr (chunk, b3)"
         "dec chunk = Inr out" "readS3D_chunks dec tsize (dat @ out) b3 = Inr (dat', b')"
      by (subst (asm) readS3D_chunks.simps) (auto split: sum.splits)
    from "1.IH"[OF True s(1) refl s(2) refl s(3) refl s(4) s(5)] have "data b' = data b3" .
    with s(1,2,3) show ?thesis by (auto dest!: uint_b_Inr read_Inr)
  qed
qed




lemma buffer_pos_eq: "data b = data c \<Longrightarrow> b\<lparr>pos := p\<rparr> = (c\<lparr>pos := p\<rparr> :: buffer)"
  by (cases b, cases c) simp

lemma entry_Inr:
  "readS3D_entry dec offset i b = Inr ((crc, foff, dat), b') \<Longrightarrow>
     data b' = data b \<and> crc = le_nat (take 4 (drop (offset + 4 + i * 12) (data b)))"
  unfolding readS3D_entry_def
  by (auto split: sum.splits dest!: uint_b_Inr chunks_data)

lemma entry_data_only:
  "data b = data c \<Longrightarrow> readS3D_entry dec offset i b = readS3D_entry dec offset i c"
  unfolding readS3D_entry_def by (simp add: buffer_pos_eq[of b c])

lemma loop_filelist:
  "readS3D_loop dec offset idxs (d, fl, b) = Inr (d', fl', b') \<Longrightarrow>
     data b' = data b
     \<and> length fl' = length fl
          + length (filter (\<lambda>i. le_nat (take 4 (drop (offset + 4 + i * 12) (data b))) \<noteq> directory_crc) idxs)
     \<and> (\<forall>(foff, dat) \<in> set fl'. (foff, dat) \<in> set fl \<or>
           (\<exists>i \<in> set idxs. \<exists>crc b4. readS3D_entry dec offset i b = Inr ((crc, foff, dat), b4)
               \<and> crc \<noteq> directory_crc))"
proof (induction idxs arbitrary: d fl b)
  case Nil
  then show ?case by auto
next
  case (Cons i rest)
  from Cons.prems obtain crc foff dat b4 where
    e: "readS3D_entry dec offset i b = Inr ((crc, foff, dat), b4)"
    by (auto split: sum.splits)
  from entry_Inr[OF e] have db: "data b4 = data b"
    and crc: "crc = le_nat (take 4 (drop (offset + 4 + i * 12) (data b)))" by auto
  have same: "\<And>j. readS3D_entry dec offset j b4 = readS3D_entry dec offset j b"
    using db by (rule entry_data_only)
  show ?case
  proof (cases "crc = directory_crc")
    case True
    with Cons.prems e have "readS3D_loop dec offset rest (Some dat, fl, b4) = Inr (d', fl', b')"
      by simp
    from Cons.IH[OF this] True crc db same show ?thesis by auto
  next
    case False
    with Cons.prems e have "readS3D_loop dec offset rest (d, fl @ [(foff, dat)], b4) = Inr (d', fl', b')"
      by simp
    from Cons.IH[OF this] False crc db same e show ?thesis by auto
  qed
qed

lemma loop_directory:
  "readS3D_loop dec offset idxs (d0, fl, b) = Inr (Some d, fl', b') \<Longrightarrow>
     d0 = Some d \<or>
     (\<exists>i \<in> set idxs. \<exists>foff b4. readS3D_entry dec offset i b = Inr ((directory_crc, foff, d), b4))"
proof (induction idxs arbitrary: d0 fl b)
  case Nil
  then show ?case by auto
next
  case (Cons i rest)
  from Cons.prems obtain crc foff dat b4 where
    e: "readS3D_entry dec offset i b = Inr ((crc, foff, dat), b4)"
    by (auto split: sum.splits)
  from entry_Inr[OF e] have db: "data b4 = data b" by auto
  have same: "\<And>j. readS3D_entry dec offset j b4 = readS3D_entry dec offset j b"
    using db by (rule entry_data_only)
  show ?case
  proof (cases "crc = directory_crc")
    case True
    with Cons.prems e have "readS3D_loop dec offset rest (Some dat, fl, b4) = Inr (Some d, fl', b')"
      by simp
    from Cons.IH[OF this] True same e show ?thesis by auto
  next
    case False
    with Cons.prems e have "readS3D_loop dec offset rest (d0, fl @ [(foff, dat)], b4) = Inr (Some d, fl', b')"
      by simp
    from Cons.IH[OF this] same show ?thesis by auto
  qed
qed

lemma names_keys:
  "readS3D_names decode fl b m = Inr files \<Longrightarrow>
     \<exists>keys. directory_names decode (length fl) b = Inr keys \<and> length keys = length fl
        \<and> files = m ++ map_of (rev (zip keys (map snd fl)))"
proof (induction fl arbitrary: b m)
  case Nil
  then show ?case by auto
next
  case (Cons x rest)
  obtain foff dat where x: "x = (foff, dat)" by (cases x)
  from Cons.prems x obtain n b1 raw b2 where
    u: "uint_b b = Inr (n, b1)" "read b1 n = Inr (raw, b2)" and
    r: "readS3D_names decode rest b2 (m(py_lower (decode (strip0 raw)) \<mapsto> dat)) = Inr files"
    by (auto split: sum.splits)
  let ?k = "py_lower (decode (strip0 raw))"
  from Cons.IH[OF r] obtain keys where k: "directory_names decode (length rest) b2 = Inr keys"
    "length keys = length rest"
    "files = (m(?k \<mapsto> dat)) ++ map_of (rev (zip keys (map snd rest)))" by blast
  have "(m(?k \<mapsto> dat)) ++ map_of (rev (zip keys (map snd rest)))
          = m ++ map_of (rev (zip (?k # keys) (map snd (x # rest))))"
    by (simp add: x map_add_upd_left fun_eq_iff map_add_def split: option.splits)
  with k u show ?case
    by (intro exI[of _ "?k # keys"]) simp
qed

lemma dom_zip_keys:
  "length keys = length vs \<Longrightarrow> dom (map_of (rev (zip keys vs))) = set keys"
  by (simp add: dom_map_of_conv_image_fst flip: set_map)

lemma ran_zip_keys:
  "ran (map_of (rev (zip keys vs))) \<subseteq> set vs"
proof
  fix v assume "v \<in> ran (map_of (rev (zip keys vs)))"
  then obtain k where "map_of (rev (zip keys vs)) k = Some v" by (auto simp: ran_def)
  then have "(k, v) \<in> set (rev (zip keys vs))" by (rule map_of_SomeD)
  then show "v \<in> set vs" by (auto dest: set_zip_rightD)
qed

text \<open>
  C6 amended. For every archive that the reader accepts and whose directory table
  declares \<open>count\<close> entries exactly one of which carries the reserved checksum
  \<open>0x61580AC9\<close>: the data \<open>d\<close> of that entry is the directory blob, which states
  \<open>count - 1\<close> names; the keys of the returned mapping are the \<open>count - 1\<close>
  normalised names \<open>keys\<close> that \<open>directory_names\<close> reads from the blob; the mapping
  pairs them with the data of the other entries in the order of their offsets, a
  later pair replacing an earlier one with the same name; and every file in it is the
  data of a table entry with another checksum. So the mapping has at most
  \<open>count - 1\<close> files, and \<open>count - 1\<close> exactly when those names are pairwise distinct.
\<close>

theorem readS3D_excludes_directory:
  assumes ok: "readS3D dec decode fp = Inr files"
    and one: "length (filter (\<lambda>i. s3d_crc fp i = directory_crc) [0..<s3d_count fp]) = 1"
  shows "\<exists>i foff d b' bd keys filelist b4.
       i < s3d_count fp \<and> s3d_crc fp i = directory_crc
     \<and> readS3D_entry dec (s3d_offset fp) i (Buffer fp) = Inr ((directory_crc, foff, d), b')
     \<and> uint_b (Buffer d) = Inr (s3d_count fp - 1, bd)
     \<and> directory_names decode (s3d_count fp - 1) bd = Inr keys
     \<and> length keys = s3d_count fp - 1
     \<and> dom files = set keys
     \<and> card (dom files) \<le> s3d_count fp - 1
     \<and> (card (dom files) = s3d_count fp - 1 \<longleftrightarrow> distinct keys)
     \<and> readS3D_loop dec (s3d_offset fp) [0..<s3d_count fp]
           (None, [], \<lparr>data = fp, pos = s3d_offset fp + 4\<rparr>) = Inr (Some d, filelist, b4)
     \<and> length filelist = s3d_count fp - 1
     \<and> files = map_of (rev (zip keys (map snd (sort_key fst filelist))))
     \<and> (\<forall>v \<in> ran files. \<exists>j < s3d_count fp. \<exists>foff b'.
            readS3D_entry dec (s3d_offset fp) j (Buffer fp) = Inr ((s3d_crc fp j, foff, v), b')
            \<and> s3d_crc fp j \<noteq> directory_crc)"
proof -
  from ok obtain offset b1 magic b2 count b3 directory filelist b4 d n bd where
    s: "uint_b (Buffer fp) = Inr (offset, b1)" "read b1 4 = Inr (magic, b2)"
       "uint_b (b2\<lparr>pos := offset\<rparr>) = Inr (count, b3)"
       "readS3D_loop dec offset [0..<count] (None, [], b3) = Inr (Some d, filelist, b4)"
       "uint_b (Buffer d) = Inr (n, bd)" "n = length filelist"
       "readS3D_names decode (sort_key fst filelist) bd Map.empty = Inr files"
    unfolding readS3D_def by (auto split: sum.splits if_splits option.splits)
  from s(1) have off: "offset = s3d_offset fp" and d1: "data b1 = fp"
    by (auto dest!: uint_b_Inr simp: Buffer_def s3d_offset_def)
  from s(2) d1 have d2: "data b2 = fp" by (auto dest!: read_Inr)
  from s(3) d2 off have cnt: "count = s3d_count fp" and d3: "data b3 = fp"
    and p3: "pos b3 = s3d_offset fp + 4"
    by (auto dest!: uint_b_Inr simp: s3d_count_def)
  from d3 p3 have b3: "b3 = \<lparr>data = fp, pos = s3d_offset fp + 4\<rparr>" by (cases b3) simp
  have crc: "\<And>i. le_nat (take 4 (drop (offset + 4 + i * 12) (data b3))) = s3d_crc fp i"
    by (simp add: s3d_crc_def off d3)
  from loop_filelist[OF s(4)] crc
  have len: "length filelist = length (filter (\<lambda>i. s3d_crc fp i \<noteq> directory_crc) [0..<count])"
    and prov: "\<forall>(foff, dat) \<in> set filelist. \<exists>i \<in> set [0..<count]. \<exists>crc b4.
        readS3D_entry dec offset i b3 = Inr ((crc, foff, dat), b4) \<and> crc \<noteq> directory_crc"
    by auto
  have "length (filter (\<lambda>i. s3d_crc fp i \<noteq> directory_crc) [0..<count])
        + length (filter (\<lambda>i. s3d_crc fp i = directory_crc) [0..<count]) = count"
    using sum_length_filter_compl[of "\<lambda>i. s3d_crc fp i = directory_crc" "[0..<count]"] by simp
  with one cnt len have len': "length filelist = s3d_count fp - 1" by simp
  have same: "\<And>i. readS3D_entry dec offset i b3 = readS3D_entry dec offset i (Buffer fp)"
    by (rule entry_data_only) (simp add: d3 Buffer_def)
  from loop_directory[OF s(4)] obtain i foff b' where
    i: "i < count" "readS3D_entry dec offset i b3 = Inr ((directory_crc, foff, d), b')"
    by auto
  from entry_Inr[OF i(2)] crc have ic: "s3d_crc fp i = directory_crc" by simp
  from names_keys[OF s(7)] obtain keys where
    k: "directory_names decode (length filelist) bd = Inr keys" "length keys = length filelist"
       "files = map_of (rev (zip keys (map snd (sort_key fst filelist))))"
    by auto
  from k(2) have kl: "length keys = length (map snd (sort_key fst filelist))" by simp
  from dom_zip_keys[OF kl] k(3) have dk: "dom files = set keys" by simp
  from ran_zip_keys[of keys "map snd (sort_key fst filelist)"] k(3)
  have rf: "ran files \<subseteq> snd ` set filelist" by simp
  have pv: "\<forall>v \<in> ran files. \<exists>j < s3d_count fp. \<exists>foff b'.
            readS3D_entry dec (s3d_offset fp) j (Buffer fp) = Inr ((s3d_crc fp j, foff, v), b')
            \<and> s3d_crc fp j \<noteq> directory_crc"
  proof
    fix v assume "v \<in> ran files"
    with rf obtain foff where "(foff, v) \<in> set filelist" by auto
    with prov obtain j crc' b' where j: "j < count"
      "readS3D_entry dec offset j b3 = Inr ((crc', foff, v), b')" "crc' \<noteq> directory_crc" by fastforce
    from entry_Inr[OF j(2)] crc have "crc' = s3d_crc fp j" by simp
    with j same off cnt show "\<exists>j < s3d_count fp. \<exists>foff b'.
            readS3D_entry dec (s3d_offset fp) j (Buffer fp) = Inr ((s3d_crc fp j, foff, v), b')
            \<and> s3d_crc fp j \<noteq> directory_crc" by auto
  qed
  have c1: "card (set keys) \<le> length keys" by (rule card_length)
  have c2: "card (set keys) = length keys \<longleftrightarrow> distinct keys"
    using card_distinct distinct_card by blast
  have e1: "readS3D_entry dec (s3d_offset fp) i (Buffer fp) = Inr ((directory_crc, foff, d), b')"
    using i(2) same off by simp
  have e2: "uint_b (Buffer d) = Inr (s3d_count fp - 1, bd)" using s(5,6) len' by simp
  have e3: "directory_names decode (s3d_count fp - 1) bd = Inr keys" using k(1) len' by simp
  have e4: "readS3D_loop dec (s3d_offset fp) [0..<s3d_count fp]
           (None, [], \<lparr>data = fp, pos = s3d_offset fp + 4\<rparr>) = Inr (Some d, filelist, b4)"
    using s(4) off cnt b3 by simp
  have i': "i < s3d_count fp" using i(1) cnt by simp
  have kl': "length keys = s3d_count fp - 1" using k(2) len' by simp
  have c1': "card (dom files) \<le> s3d_count fp - 1" using c1 dk kl' by simp
  have c2': "card (dom files) = s3d_count fp - 1 \<longleftrightarrow> distinct keys" using c2 dk kl' by simp
  show ?thesis
    apply (rule exI[of _ i], rule exI[of _ foff], rule exI[of _ d], rule exI[of _ b'])
    apply (rule exI[of _ bd], rule exI[of _ keys], rule exI[of _ filelist], rule exI[of _ b4])
    apply (intro conjI)
    apply (rule i', rule ic, rule e1, rule e2, rule e3, rule kl', rule dk, rule c1', rule c2',
           rule e4, rule len', rule k(3), rule pv)
    done
qed


lemmas s3d_eval = readS3D_def readS3D_entry_def readS3D_chunks.simps uint_b_def read_def Buffer_def
  s3d_magic_def directory_crc_def stored_codec_def decode_ascii_def strip0_def py_lower_def
  py_lower_char_def upt_rec char_of_def bit_Suc_0_iff

lemma same_name_archive_files:
  "readS3D stored_codec decode_ascii same_name_archive = Inr [''a'' \<mapsto> [0x42]]"
  by (simp add: s3d_eval same_name_archive_def)

lemma same_name_archive_count:
  "s3d_count same_name_archive = 3"
  by (simp add: s3d_count_def s3d_offset_def same_name_archive_def)

lemma same_name_archive_one_directory:
  "length (filter (\<lambda>i. s3d_crc same_name_archive i = directory_crc) [0..<s3d_count same_name_archive]) = 1"
  by (simp add: s3d_count_def s3d_offset_def s3d_crc_def same_name_archive_def directory_crc_def upt_rec)

lemma two_name_archive_files:
  "readS3D stored_codec decode_ascii two_name_archive = Inr [''a'' \<mapsto> [0x41], ''b'' \<mapsto> [0x42]]"
  by (simp add: s3d_eval two_name_archive_def)

lemma two_name_archive_count:
  "s3d_count two_name_archive = 3"
  by (simp add: s3d_count_def s3d_offset_def two_name_archive_def)

lemma two_name_archive_one_directory:
  "length (filter (\<lambda>i. s3d_crc two_name_archive i = directory_crc) [0..<s3d_count two_name_archive]) = 1"
  by (simp add: s3d_count_def s3d_offset_def s3d_crc_def two_name_archive_def directory_crc_def upt_rec)

theorem readS3D_excludes_directory_witness:
  "readS3D stored_codec decode_ascii two_name_archive = Inr [''a'' \<mapsto> [0x41], ''b'' \<mapsto> [0x42]]
   \<and> length (filter (\<lambda>i. s3d_crc two_name_archive i = directory_crc) [0..<s3d_count two_name_archive]) = 1
   \<and> (\<exists>keys. length keys = s3d_count two_name_archive - 1
        \<and> dom [''a'' \<mapsto> [0x41::byte], ''b'' \<mapsto> [0x42]] = set keys
        \<and> distinct keys
        \<and> card (dom [''a'' \<mapsto> [0x41::byte], ''b'' \<mapsto> [0x42]]) = s3d_count two_name_archive - 1)"
proof -
  from readS3D_excludes_directory[OF two_name_archive_files two_name_archive_one_directory]
  obtain keys where k: "length keys = s3d_count two_name_archive - 1"
    "dom [''a'' \<mapsto> [0x41::byte], ''b'' \<mapsto> [0x42]] = set keys"
    "card (dom [''a'' \<mapsto> [0x41::byte], ''b'' \<mapsto> [0x42]]) = s3d_count two_name_archive - 1
       \<longleftrightarrow> distinct keys"
    by (elim exE conjE) (rule that)
  have c: "card (dom [''a'' \<mapsto> [0x41::byte], ''b'' \<mapsto> [0x42]]) = s3d_count two_name_archive - 1"
    by (simp add: two_name_archive_count)
  with k two_name_archive_files two_name_archive_one_directory show ?thesis by blast
qed

text \<open>
  C6 as stated: with exactly one entry carrying the reserved checksum, the mapping has
  \<open>count - 1\<close> files. \<open>same_name_archive\<close> declares 3 entries, one of them the directory,
  and its two files are named \<open>a\<close> and \<open>A\<close>: both are stored under the key \<open>a\<close>,
  and the mapping has one file.
\<close>

theorem readS3D_same_name_one_file:
  "readS3D stored_codec decode_ascii same_name_archive = Inr [''a'' \<mapsto> [0x42]]
   \<and> length (filter (\<lambda>i. s3d_crc same_name_archive i = directory_crc) [0..<s3d_count same_name_archive]) = 1
   \<and> card (dom [''a'' \<mapsto> [0x42::byte]]) = 1
   \<and> s3d_count same_name_archive - 1 = 2"
  using same_name_archive_files same_name_archive_one_directory same_name_archive_count by simp






section \<open>References: construction and resolution\<close>

lemma frags_value_refs [simp]: "frags_value (w\<lparr>refs := rf\<rparr>) i = frags_value w i"
  by (simp add: frags_value_def)

lemma names_value_refs [simp]: "names_value (w\<lparr>refs := rf\<rparr>) nm = names_value w nm"
  by (simp add: names_value_def split: option.splits)

text \<open>
  What a resolution that returns has done: its value is not a reference, it is stored
  on the reference, and nothing but the reference heap has changed.
\<close>

lemma resolve_aux_result:
  "resolve_aux n w a = Inr (v, w') \<Longrightarrow>
     (\<forall>b. v \<noteq> PRef b) \<and> ref_value (refs w' a) = v \<and> (\<exists>rf. w' = w\<lparr>refs := rf\<rparr>)"
proof (induction n arbitrary: w a v w')
  case 0
  then show ?case by simp
next
  case (Suc n)
  from Suc.prems obtain v1 w1 where
    first: "(if ref_value (refs w a) \<noteq> PNone then Inr (ref_value (refs w a), w)
            else case ref_id (refs w a) of
                   Some i \<Rightarrow>
                     (case frags_value w i of
                        Inl e \<Rightarrow> Inl e
                      | Inr v \<Rightarrow> Inr (v, set_ref_value w a v))
                 | None \<Rightarrow>
                     (case ref_name (refs w a) of
                        Some nm \<Rightarrow>
                          (case names_value w (Some nm) of
                             Inl e \<Rightarrow> Inl e
                           | Inr v \<Rightarrow> Inr (v, set_ref_value w a v))
                      | None \<Rightarrow> Inr (PNone, w))) = Inr (v1, w1)"
    by (auto split: sum.splits)
  then have w1: "(\<exists>rf. w1 = w\<lparr>refs := rf\<rparr>)" and v1: "ref_value (refs w1 a) = v1"
    by (auto simp: set_ref_value_def split: if_splits option.splits sum.splits intro: exI[of _ "refs w"])
  show ?case
  proof (cases "\<exists>a2. v1 = PRef a2")
    case True
    then obtain a2 where a2: "v1 = PRef a2" by blast
    with Suc.prems first obtain w2 where
      r: "resolve_aux n w1 a2 = Inr (v, w2)" and w': "w' = set_ref_value w2 a v"
      by (auto split: sum.splits)
    from Suc.IH[OF r] w1 w' show ?thesis
      by (auto simp: set_ref_value_def)
  next
    case False
    with Suc.prems first have "v = v1" "w' = w1"
      by (auto split: pyval.splits)
    with False w1 v1 show ?thesis by auto
  qed
qed

lemma resolve_aux_again:
  assumes "resolve_aux n w a = Inr (v, w')" and "v \<noteq> PNone"
  shows "resolve_aux n w' a = Inr (v, w')"
proof -
  from assms(1) obtain m where n: "n = Suc m" by (cases n) auto
  from resolve_aux_result[OF assms(1)] have "\<forall>b. v \<noteq> PRef b" "ref_value (refs w' a) = v" by auto
  with assms(2) n show ?thesis by (auto split: pyval.splits)
qed

text \<open>The exceptions of a resolution are those of the two table lookups and of the recursion.\<close>

lemma resolve_aux_error:
  "resolve_aux n w a = Inl e \<Longrightarrow> e = KeyError \<or> e = RecursionError"
proof (induction n arbitrary: w a)
  case 0
  then show ?case by simp
next
  case (Suc n)
  then show ?case
    by (auto simp: frags_value_def names_value_def
        split: sum.splits if_splits option.splits pyval.splits)
qed

lemma resolve_aux_self:
  "ref_value (refs w a) = PRef a \<Longrightarrow> resolve_aux n w a = Inl RecursionError"
  by (induction n) auto

lemmas resolve_aux_numeral =
  resolve_aux.simps(2) [of "pred_numeral k" for k, folded numeral_eq_Suc]

lemmas resolve_eval = resolve_def recursion_limit_def resolve_aux_numeral

text \<open>
  C3 as stated: a reference made from an index with no fragment resolves to an
  explicit unresolved state and never raises. In a decoder without fragments,
  \<open>getFrag(5)\<close> returns a reference whose value is \<open>None\<close>, and resolving that
  reference raises \<open>KeyError\<close>.
\<close>

theorem resolve_missing_raises:
  "getFrag empty_wld 5
     = Inr (0, empty_wld\<lparr>refs := (refs empty_wld)(0 := \<lparr>ref_id = Some 4, ref_name = None, ref_value = PNone\<rparr>),
                         nrefs := 1\<rparr>)
   \<and> resolve (empty_wld\<lparr>refs := (refs empty_wld)(0 := \<lparr>ref_id = Some 4, ref_name = None, ref_value = PNone\<rparr>),
                         nrefs := 1\<rparr>) 0
     = Inl KeyError"
  by (simp add: getFrag_def new_ref_def empty_wld_def resolve_eval frags_value_def)

text \<open>
  C3 amended. Constructing a reference (\<open>getFrag\<close>) from an index or a name that
  has no corresponding fragment never raises: it yields a reference whose value is
  \<open>None\<close>, the explicit unresolved state that callers test (\<open>mtex.value is None\<close>) to
  skip the binding, and it leaves the tables as they are. Resolving that reference
  while the fragment is still absent raises \<open>KeyError\<close>.
\<close>

theorem getFrag_unresolved:
  assumes "(0 < ref \<and> frags w (nat (ref - 1)) = None)
           \<or> (ref \<le> 0 \<and> names w (Some (getString w (- ref))) = None)"
  shows "\<exists>a w'. getFrag w ref = Inr (a, w') \<and> ref_value (refs w' a) = PNone
           \<and> frags w' = frags w \<and> names w' = names w \<and> buf w' = buf w
           \<and> resolve w' a = Inl KeyError"
  using assms
  by (auto simp: getFrag_def new_ref_def Let_def resolve_eval
      frags_value_def names_value_def getString_def)

theorem getFrag_unresolved_witness:
  "(0 < (5::int) \<and> frags empty_wld (nat (5 - 1)) = None)
   \<and> (\<exists>a w'. getFrag empty_wld 5 = Inr (a, w') \<and> ref_value (refs w' a) = PNone
           \<and> resolve w' a = Inl KeyError)"
proof -
  have h: "(0 < (5::int) \<and> frags empty_wld (nat (5 - 1)) = None)"
    by (simp add: empty_wld_def)
  then have "(0 < (5::int) \<and> frags empty_wld (nat (5 - 1)) = None)
           \<or> ((5::int) \<le> 0 \<and> names empty_wld (Some (getString empty_wld (- 5))) = None)"
    by blast
  from getFrag_unresolved[OF this] h show ?thesis by blast
qed

text \<open>
  C5 amended. For every reference whose resolution returns a value other than \<open>None\<close>:
  resolving it again returns the identical value and changes nothing; the value is
  terminal (not a reference) and the first resolution has stored it on the reference;
  and a resolution reads nothing from the stream and leaves the fragment tables as they
  are. (A resolution that ends in \<open>None\<close> stores nothing that a later one can use.)
\<close>

theorem resolve_twice:
  assumes "resolve w a = Inr (v, w')" and "v \<noteq> PNone"
  shows "resolve w' a = Inr (v, w') \<and> ref_value (refs w' a) = v \<and> (\<forall>b. v \<noteq> PRef b)
         \<and> buf w' = buf w \<and> frags w' = frags w \<and> names w' = names w"
proof -
  from resolve_aux_again[OF assms[unfolded resolve_def]]
  have "resolve w' a = Inr (v, w')" by (simp add: resolve_def)
  moreover from resolve_aux_result[OF assms(1)[unfolded resolve_def]]
  have "ref_value (refs w' a) = v" "\<forall>b. v \<noteq> PRef b" "\<exists>rf. w' = w\<lparr>refs := rf\<rparr>" by auto
  ultimately show ?thesis by auto
qed

section \<open>The fragment table pass\<close>

lemmas buf_eval = uint_b_def int_b_def ushort_b_def short_b_def char_b_def float_b_def read_def
  Buffer_def skip_def run2_def run3_def run4_def signed_of_def
lemmas wld_eval = Wld_entry_def Wld_entry_head_def
  rd_def skip_w_def getString_def decodeString_def getFrag_def entry_3_def new_ref_def
  frags_value_def names_value_def name_val_def obj_set_def fragHandlers_def
  frag_texunk_def frag_getFrag_int_def

lemma rd_Inr: "rd reader w = Inr (x, w') \<Longrightarrow> \<exists>b'. reader (buf w) = Inr (x, b') \<and> w' = w\<lparr>buf := b'\<rparr>"
  by (auto simp: rd_def split: sum.splits)

lemma int_b_Inr: "int_b b = Inr (n, b') \<Longrightarrow> data b' = data b \<and> pos b' = pos b + 4"
  by (auto simp: int_b_def split: sum.splits dest: read_Inr)

lemma run2_uint_Inr: "run2 uint_b b = Inr ((x, y), b') \<Longrightarrow>
    data b' = data b \<and> pos b' = pos b + 8 \<and> x = le_nat (take 4 (drop (pos b) (data b)))"
  by (auto simp: run2_def split: sum.splits dest!: uint_b_Inr)

lemma Wld_entry_head_Inr:
  "Wld_entry_head w = Inr ((tsize, ty, nameoff), w2) \<Longrightarrow>
     pos (buf w2) = pos (buf w) + 12 \<and> tsize = le_nat (take 4 (drop (pos (buf w)) (data (buf w))))"
  by (auto simp: Wld_entry_head_def split: sum.splits dest!: rd_Inr run2_uint_Inr int_b_Inr)

text \<open>
  C2. For every fragment table entry whose round completes (the entry head is read and
  the handler, if one is registered for the type, returns), the cursor is then at the
  end position the entry declares, whatever the handler has read: \<open>epos\<close>, which is
  the start of the entry plus its size field plus 8.
\<close>

theorem Wld_entry_cursor:
  assumes "Wld_entry handlers i w = Inr w'"
  shows "pos (buf w') = entry_end (buf w)
         \<and> entry_end (buf w) = pos (buf w) + le_nat (take 4 (drop (pos (buf w)) (data (buf w)))) + 8"
proof -
  from assms obtain tsize ty nameoff w2 where
    h: "Wld_entry_head w = Inr ((tsize, ty, nameoff), w2)"
    and p: "pos (buf w') = pos (buf w2) + tsize - 4"
    by (auto simp: Wld_entry_def Let_def split: sum.splits prod.splits)
  from Wld_entry_head_Inr[OF h] p show ?thesis
    by (simp add: entry_end_def)
qed

lemma trailing_header: "Wld_header trailing_stream Map.empty = Inr (1, trailing_w0)"
  by (simp add: Wld_header_def buf_eval trailing_stream_def decodeString_def trailing_w0_def empty_wld_def)

lemma trailing_entry:
  "Wld_entry fragHandlers 0 trailing_w0 = Inr trailing_w1"
  by (simp add: wld_eval buf_eval trailing_stream_def trailing_w0_def trailing_w1_def empty_wld_def)

theorem Wld_entry_cursor_witness:
  "Wld_entry fragHandlers 0 trailing_w0 = Inr trailing_w1
   \<and> pos (buf trailing_w0) = 28 \<and> pos (buf trailing_w1) = 48
   \<and> pos (buf trailing_w1) = entry_end (buf trailing_w0)"
  using Wld_entry_cursor [OF trailing_entry] trailing_entry
  by (simp add: trailing_w0_def trailing_w1_def)

lemma read_err: "read b n = Inl e \<Longrightarrow> e = TruncatedDataError"
  by (auto simp: read_def split: if_splits)

lemma uint_b_err: "uint_b b = Inl e \<Longrightarrow> e = TruncatedDataError"
  by (auto simp: uint_b_def split: sum.splits dest: read_err)
lemma int_b_err: "int_b b = Inl e \<Longrightarrow> e = TruncatedDataError"
  by (auto simp: int_b_def split: sum.splits dest: read_err)
lemma ushort_b_err: "ushort_b b = Inl e \<Longrightarrow> e = TruncatedDataError"
  by (auto simp: ushort_b_def split: sum.splits dest: read_err)
lemma short_b_err: "short_b b = Inl e \<Longrightarrow> e = TruncatedDataError"
  by (auto simp: short_b_def split: sum.splits dest: read_err)
lemma char_b_err: "char_b b = Inl e \<Longrightarrow> e = TruncatedDataError"
  by (auto simp: char_b_def split: sum.splits dest: read_err)
lemma float_b_err: "float_b b = Inl e \<Longrightarrow> e = TruncatedDataError"
  by (auto simp: float_b_def split: sum.splits dest: read_err)

lemma truncates_basic:
  "truncates uint_b" "truncates int_b" "truncates ushort_b" "truncates short_b"
  "truncates char_b" "truncates float_b"
  by (auto simp: truncates_def dest: uint_b_err int_b_err ushort_b_err short_b_err char_b_err float_b_err)

lemma truncates_run2: "truncates reader \<Longrightarrow> truncates (run2 reader)"
  by (auto simp: truncates_def run2_def split: sum.splits)

lemma truncates_run3: "truncates reader \<Longrightarrow> truncates (run3 reader)"
  using truncates_run2[of reader]
  by (auto simp: truncates_def run3_def split: sum.splits)

lemma truncates_run4: "truncates reader \<Longrightarrow> truncates (run4 reader)"
  using truncates_run3[of reader]
  by (auto simp: truncates_def run4_def split: sum.splits)

lemma run_b_err: "truncates reader \<Longrightarrow> run_b reader n b = Inl e \<Longrightarrow> e = TruncatedDataError"
  by (induction n arbitrary: b e) (auto simp: truncates_def split: sum.splits)

lemma truncates_run_b: "truncates reader \<Longrightarrow> truncates (run_b reader n)"
  by (auto simp: truncates_def dest: run_b_err[unfolded truncates_def, rule_format, rotated])

lemma rd_err: "truncates reader \<Longrightarrow> rd reader w = Inl e \<Longrightarrow> e = TruncatedDataError"
  by (auto simp: truncates_def rd_def split: sum.splits)

lemma run_b_length: "run_b reader n b = Inr (xs, b') \<Longrightarrow> length xs = n"
  by (induction n arbitrary: b xs b') (auto split: sum.splits)

lemma index_plain_err: "index_plain w v k = Inl e \<Longrightarrow> e \<noteq> AssertionError"
  by (auto simp: index_plain_def list_index_def Let_def split: pyval.splits if_splits)

lemma subscript_int_err: "subscript_int w v k = Inl e \<Longrightarrow> e \<noteq> AssertionError"
  by (auto simp: subscript_int_def resolve_def split: pyval.splits sum.splits
      dest: index_plain_err resolve_aux_error)

lemma getFrag_err: "getFrag w r = Inl e \<Longrightarrow> e \<noteq> AssertionError"
  by (auto simp: getFrag_def entry_3_def Let_def frags_value_def names_value_def new_ref_def
      split: if_splits sum.splits option.splits dest: subscript_int_err)

lemma truncates_mesh_readers:
  "truncates (vertex_b h)" "truncates (texcoord_b is_old)" "truncates normal_b"
  "truncates poly_b" "truncates pair_b"
  using truncates_run3[OF truncates_basic(4)] truncates_run2[OF truncates_basic(4)]
    truncates_run2[OF truncates_basic(6)] truncates_run3[OF truncates_basic(5)]
    truncates_run4[OF truncates_basic(3)] truncates_run2[OF truncates_basic(3)]
  by (auto simp: truncates_def vertex_b_def texcoord_b_def normal_b_def poly_b_def pair_b_def
      split: sum.splits prod.splits if_splits)

lemma frag_mesh_head_err: "frag_mesh_head w = Inl e \<Longrightarrow> e \<noteq> AssertionError"
  unfolding frag_mesh_head_def
  by (auto split: sum.splits prod.splits if_splits
      dest!: getFrag_err
        rd_err[OF truncates_run3[OF truncates_basic(1)]]
        rd_err[OF truncates_run3[OF truncates_basic(6)]]
        rd_err[OF truncates_basic(6)]
        rd_err[OF truncates_run2[OF truncates_run3[OF truncates_basic(6)]]]
        rd_err[OF truncates_run4[OF truncates_basic(3)]]
        rd_err[OF truncates_run2[OF truncates_basic(3)]])

lemma frag_mesh_arrays_err: "frag_mesh_arrays h w = Inl e \<Longrightarrow> e \<noteq> AssertionError"
  unfolding frag_mesh_arrays_def
  by (auto split: sum.splits prod.splits if_splits
      dest!: rd_err[OF truncates_run_b[OF truncates_mesh_readers(1)]]
        rd_err[OF truncates_run_b[OF truncates_mesh_readers(2)]]
        rd_err[OF truncates_run_b[OF truncates_mesh_readers(3)]]
        rd_err[OF truncates_run_b[OF truncates_basic(1)]])

lemma frag_mesh_tail_err: "frag_mesh_tail h arr cols w = Inl e \<Longrightarrow> e \<noteq> AssertionError"
  unfolding frag_mesh_tail_def
  by (auto split: sum.splits prod.splits if_splits
      dest!: rd_err[OF truncates_run_b[OF truncates_mesh_readers(4)]]
        rd_err[OF truncates_run_b[OF truncates_mesh_readers(5)]])

lemma frag_mesh_arrays_colors:
  "frag_mesh_arrays h w = Inr (arr, w') \<Longrightarrow> length (tcolors arr) = colorcount h"
  unfolding frag_mesh_arrays_def
  by (auto split: sum.splits prod.splits if_splits dest!: rd_Inr run_b_length)

lemma frag_mesh_assert_iff:
  "frag_mesh w = Inl AssertionError \<longleftrightarrow>
     (\<exists>h w1 arr w2. frag_mesh_head w = Inr (h, w1) \<and> frag_mesh_arrays h w1 = Inr (arr, w2)
        \<and> colorcount h \<noteq> 0 \<and> colorcount h \<noteq> vertcount h)"
proof
  assume a: "frag_mesh w = Inl AssertionError"
  then obtain h w1 where h: "frag_mesh_head w = Inr (h, w1)"
    by (auto simp: frag_mesh_def split: sum.splits dest: frag_mesh_head_err)
  with a obtain arr w2 where arr: "frag_mesh_arrays h w1 = Inr (arr, w2)"
    by (auto simp: frag_mesh_def split: sum.splits dest: frag_mesh_arrays_err)
  from a h arr have "colorcount h \<noteq> 0 \<and> colorcount h \<noteq> vertcount h"
    using frag_mesh_arrays_colors[OF arr]
    by (auto simp: frag_mesh_def Let_def split: if_splits dest: frag_mesh_tail_err)
  with h arr show "\<exists>h w1 arr w2. frag_mesh_head w = Inr (h, w1) \<and> frag_mesh_arrays h w1 = Inr (arr, w2)
        \<and> colorcount h \<noteq> 0 \<and> colorcount h \<noteq> vertcount h" by blast
next
  assume "\<exists>h w1 arr w2. frag_mesh_head w = Inr (h, w1) \<and> frag_mesh_arrays h w1 = Inr (arr, w2)
        \<and> colorcount h \<noteq> 0 \<and> colorcount h \<noteq> vertcount h"
  then obtain h w1 arr w2 where h: "frag_mesh_head w = Inr (h, w1)"
    and arr: "frag_mesh_arrays h w1 = Inr (arr, w2)"
    and c: "colorcount h \<noteq> 0" "colorcount h \<noteq> vertcount h" by blast
  from frag_mesh_arrays_colors[OF arr] h arr c show "frag_mesh w = Inl AssertionError"
    by (simp add: frag_mesh_def)
qed

lemma Wld_loop_append:
  "Wld_loop handlers (xs @ ys) w =
     (case Wld_loop handlers xs w of Inl e \<Rightarrow> Inl e | Inr w' \<Rightarrow> Wld_loop handlers ys w')"
  by (induction xs arbitrary: w) (auto split: sum.splits)

lemma Wld_entry_handler_raises:
  "Wld_entry_head w = Inr ((tsize, ty, nameoff), wm) \<Longrightarrow> handlers ty = Some h \<Longrightarrow> h wm = Inl e
     \<Longrightarrow> Wld_entry handlers i w = Inl e"
  by (simp add: Wld_entry_def)

lemma Wld_init_handler_raises:
  assumes "Wld_header dat files = Inr (fragCount, w0)" and "i < fragCount"
    and "Wld_loop handlers [0..<i] w0 = Inr wi"
    and "Wld_entry_head wi = Inr ((tsize, ty, nameoff), wm)"
    and "handlers ty = Some h" and "h wm = Inl e"
  shows "Wld_init handlers dat files = Inl e"
proof -
  from assms(2) have "[0..<fragCount] = [0..<i] @ i # [Suc i..<fragCount]"
    by (metis le_add1 less_imp_add_positive upt_add_eq_append upt_rec zero_less_iff_neq_zero add_0)
  moreover have "Wld_entry handlers i wi = Inl e"
    using assms(4,5,6) by (rule Wld_entry_handler_raises)
  ultimately have "Wld_loop handlers [0..<fragCount] w0 = Inl e"
    using assms(3) by (simp add: Wld_loop_append)
  with assms(1) show ?thesis by (simp add: Wld_init_def)
qed


text \<open>
  C10. The mesh handler raises the assertion failure exactly when the head and the
  arrays of the record are read and the declared colour count is neither zero nor the
  declared vertex count; so the branch is not reached when the colour count is zero or
  equals the vertex count. The failure is not absorbed: when the decoder reaches a
  mesh fragment on which the handler raises it, \<open>Wld.__init__\<close> ends with it.
\<close>

theorem frag_mesh_assertion_aborts:
  "(frag_mesh w = Inl AssertionError \<longleftrightarrow>
      (\<exists>h w1 arr w2. frag_mesh_head w = Inr (h, w1) \<and> frag_mesh_arrays h w1 = Inr (arr, w2)
          \<and> colorcount h \<noteq> 0 \<and> colorcount h \<noteq> vertcount h))
   \<and> (handlers 0x36 = Some frag_mesh \<longrightarrow> Wld_header dat files = Inr (fragCount, w0)
        \<longrightarrow> i < fragCount \<longrightarrow> Wld_loop handlers [0..<i] w0 = Inr wi
        \<longrightarrow> Wld_entry_head wi = Inr ((tsize, 0x36, nameoff), wm)
        \<longrightarrow> frag_mesh wm = Inl AssertionError
        \<longrightarrow> Wld_init handlers dat files = Inl AssertionError)"
proof (intro conjI impI)
  show "frag_mesh w = Inl AssertionError \<longleftrightarrow>
      (\<exists>h w1 arr w2. frag_mesh_head w = Inr (h, w1) \<and> frag_mesh_arrays h w1 = Inr (arr, w2)
          \<and> colorcount h \<noteq> 0 \<and> colorcount h \<noteq> vertcount h)"
    by (rule frag_mesh_assert_iff)
next
  assume "handlers 0x36 = Some frag_mesh" "Wld_header dat files = Inr (fragCount, w0)"
    "i < fragCount" "Wld_loop handlers [0..<i] w0 = Inr wi"
    "Wld_entry_head wi = Inr ((tsize, 0x36, nameoff), wm)" "frag_mesh wm = Inl AssertionError"
  then show "Wld_init handlers dat files = Inl AssertionError"
    using Wld_init_handler_raises[of dat files fragCount w0 i handlers wi tsize "0x36" nameoff wm
        frag_mesh AssertionError]
    by simp
qed

lemma mesh_header: "Wld_header mesh_stream Map.empty = Inr (1, mesh_w0)"
  by (simp add: Wld_header_def buf_eval mesh_stream_def decodeString_def mesh_w0_def empty_wld_def)

lemma mesh_entry_head:
  "Wld_entry_head mesh_w0 = Inr ((100, 0x36, 0x1000000), mesh_wm)"
  by (simp add: Wld_entry_head_def rd_def buf_eval mesh_stream_def mesh_w0_def mesh_wm_def empty_wld_def)

lemma mesh_head:
  "\<exists>h w1. frag_mesh_head mesh_wm = Inr (h, w1)
      \<and> vertcount h = 0 \<and> colorcount h = 1 \<and> texcoordcount h = 0 \<and> normalcount h = 0
      \<and> old w1 = False \<and> buf w1 = \<lparr>data = mesh_stream, pos = 132\<rparr>"
  by (simp add: frag_mesh_head_def rd_def skip_w_def getFrag_def getString_def new_ref_def
      buf_eval mesh_stream_def mesh_w0_def mesh_wm_def empty_wld_def)

lemma mesh_arrays:
  assumes "vertcount h = 0" "colorcount h = 1" "texcoordcount h = 0" "normalcount h = 0"
    "buf w1 = \<lparr>data = mesh_stream, pos = 132\<rparr>"
  shows "\<exists>arr w2. frag_mesh_arrays h w1 = Inr (arr, w2)"
  using assms
  by (simp add: frag_mesh_arrays_def rd_def buf_eval mesh_stream_def)

lemma mesh_raises: "frag_mesh mesh_wm = Inl AssertionError"
proof -
  from mesh_head obtain h w1 where h: "frag_mesh_head mesh_wm = Inr (h, w1)"
    "vertcount h = 0" "colorcount h = 1" "texcoordcount h = 0" "normalcount h = 0"
    "buf w1 = \<lparr>data = mesh_stream, pos = 132\<rparr>" by blast
  from mesh_arrays[OF h(2-6)] obtain arr w2 where "frag_mesh_arrays h w1 = Inr (arr, w2)" by blast
  with h show ?thesis
    by (subst frag_mesh_assert_iff) (intro exI[of _ h] exI[of _ w1] exI[of _ arr] exI[of _ w2], simp)
qed

theorem frag_mesh_assertion_aborts_witness:
  "fragHandlers 0x36 = Some frag_mesh
   \<and> Wld_header mesh_stream Map.empty = Inr (1, mesh_w0)
   \<and> Wld_loop fragHandlers [0..<0] mesh_w0 = Inr mesh_w0
   \<and> Wld_entry_head mesh_w0 = Inr ((100, 0x36, 0x1000000), mesh_wm)
   \<and> frag_mesh mesh_wm = Inl AssertionError
   \<and> Wld_init fragHandlers mesh_stream Map.empty = Inl AssertionError"
proof -
  have t: "fragHandlers 0x36 = Some frag_mesh" by (simp add: fragHandlers_def)
  have l: "Wld_loop fragHandlers [0..<0] mesh_w0 = Inr mesh_w0" by simp
  from frag_mesh_assertion_aborts [of mesh_wm fragHandlers mesh_stream Map.empty 1 mesh_w0 0 mesh_w0
      100 "0x1000000" mesh_wm]
    t mesh_header l mesh_entry_head mesh_raises
  show ?thesis by simp
qed

subsection \<open>Resolution on decoded streams\<close>

lemma forward_resolve:
  "resolve forward_wld 1
     = Inr (PList [PStr ''a.bmp''],
            set_ref_value (set_ref_value forward_wld 0 (PList [PStr ''a.bmp''])) 1 (PList [PStr ''a.bmp'']))"
  by (simp add: resolve_eval forward_wld_def empty_wld_def frags_value_def set_ref_value_def)

theorem resolve_twice_witness:
  "resolve forward_wld 1
     = Inr (PList [PStr ''a.bmp''],
            set_ref_value (set_ref_value forward_wld 0 (PList [PStr ''a.bmp''])) 1 (PList [PStr ''a.bmp'']))
   \<and> PList [PStr ''a.bmp''] \<noteq> PNone
   \<and> resolve (set_ref_value (set_ref_value forward_wld 0 (PList [PStr ''a.bmp''])) 1 (PList [PStr ''a.bmp''])) 1
     = Inr (PList [PStr ''a.bmp''],
            set_ref_value (set_ref_value forward_wld 0 (PList [PStr ''a.bmp''])) 1 (PList [PStr ''a.bmp'']))"
  using resolve_twice [OF forward_resolve] forward_resolve by simp

lemma chain_header: "Wld_header chain_stream Map.empty = Inr (3, chain_w0)"
  by (simp add: Wld_header_def buf_eval chain_stream_def decodeString_def chain_w0_def empty_wld_def)

lemma chain_entry0: "Wld_entry fragHandlers 0 chain_w0 = Inr chain_w1"
  by (simp add: wld_eval buf_eval Let_def chain_stream_def chain_w0_def chain_w1_def empty_wld_def)

lemma chain_entry1: "Wld_entry fragHandlers (Suc 0) chain_w1 = Inr chain_w2"
  by (simp add: wld_eval buf_eval Let_def chain_stream_def chain_w0_def chain_w1_def chain_w2_def empty_wld_def)

lemma chain_entry2: "Wld_entry fragHandlers (Suc (Suc 0)) chain_w2 = Inr chain_w3"
  apply (simp add: wld_eval buf_eval Let_def chain_stream_def chain_w0_def chain_w1_def chain_w2_def chain_w3_def
      empty_wld_def)
  apply (simp add: numeral_2_eq_2)
  done

lemma chain_loop: "Wld_loop fragHandlers [0..<3] chain_w0 = Inr chain_w3"
proof -
  have "[0..<3] = [0, Suc 0, Suc (Suc 0)]" by (simp add: upt_rec numeral_3_eq_3)
  then show ?thesis by (simp add: chain_entry0 chain_entry1 chain_entry2)
qed

lemma chain_bake:
  "\<exists>bt. Wld_bake 3 chain_w3 = Inr (chain_w3\<lparr>names := [Some [] \<mapsto> 2], byType := bt, baked := True\<rparr>)"
  by (simp add: Wld_bake_def upt_rec chain_w3_def chain_w2_def chain_w1_def chain_w0_def empty_wld_def
      numeral_2_eq_2)

lemma chain_resolve:
  assumes "W = chain_w3\<lparr>names := [Some [] \<mapsto> 2], byType := bt, baked := True\<rparr>"
  shows "resolve W 1 = Inr (PNone, set_ref_value (set_ref_value W 0 PNone) 1 PNone)"
  unfolding assms
  by (simp add: resolve_eval chain_w3_def chain_w2_def chain_w1_def chain_w0_def empty_wld_def
      frags_value_def set_ref_value_def)

lemma chain_resolve_again:
  assumes "W = chain_w3\<lparr>names := [Some [] \<mapsto> 2], byType := bt, baked := True\<rparr>"
  shows "resolve (set_ref_value (set_ref_value W 0 PNone) 1 PNone) 1 = Inl RecursionError"
proof -
  let ?W' = "set_ref_value (set_ref_value W 0 PNone) 1 PNone"
  have v: "ref_value (refs (set_ref_value ?W' 1 (PRef 1)) 1) = PRef 1"
    by (simp add: set_ref_value_def)
  have n: "names_value ?W' (Some []) = Inr (PRef 1)"
    unfolding assms
    by (simp add: chain_w3_def chain_w2_def chain_w1_def chain_w0_def empty_wld_def
        frags_value_def names_value_def set_ref_value_def)
  have r: "refs ?W' 1 = \<lparr>ref_id = None, ref_name = Some [], ref_value = PNone\<rparr>"
    unfolding assms
    by (simp add: chain_w3_def chain_w2_def chain_w1_def chain_w0_def empty_wld_def set_ref_value_def)
  have "resolve_aux (Suc 999) ?W' 1 =
     (case resolve_aux 999 (set_ref_value ?W' 1 (PRef 1)) 1 of
        Inl e \<Rightarrow> Inl e
      | Inr (v2, w2) \<Rightarrow> Inr (v2, set_ref_value w2 1 v2))"
    by (simp only: resolve_aux.simps r n fragref.simps option.case sum.case prod.case pyval.case
        if_False if_True simp_thms)
  with resolve_aux_self[OF v, of 999] have "resolve_aux (Suc 999) ?W' 1 = Inl RecursionError"
    by simp
  then show ?thesis by (simp add: resolve_def recursion_limit_def)
qed

text \<open>
  C5 as stated: resolving a reference twice yields identical values. Decoding
  \<open>chain_stream\<close> gives a reference (the one that the third fragment makes from the
  name \<open>""\<close>) whose first resolution returns \<open>None\<close> and whose second resolution
  does not return: it raises \<open>RecursionError\<close>. The first resolution goes through the
  value cached when the reference was made and ends in the handlerless fragment 0;
  the second finds \<open>None\<close> on the reference, looks the name up again, and the name
  now belongs to the fragment that holds this very reference.
\<close>

theorem resolve_none_then_recursion:
  "(case Wld_init fragHandlers chain_stream Map.empty of
      Inl e \<Rightarrow> False
    | Inr w \<Rightarrow>
        (case resolve w 1 of
           Inl e \<Rightarrow> False
         | Inr (v, w') \<Rightarrow> v = PNone \<and> resolve w' 1 = Inl RecursionError))"
proof -
  from chain_bake obtain bt where
    b: "Wld_bake 3 chain_w3 = Inr (chain_w3\<lparr>names := [Some [] \<mapsto> 2], byType := bt, baked := True\<rparr>)"
    by blast
  let ?W = "chain_w3\<lparr>names := [Some [] \<mapsto> 2], byType := bt, baked := True\<rparr>"
  have "Wld_init fragHandlers chain_stream Map.empty = Inr ?W"
    by (simp add: Wld_init_def chain_header chain_loop b)
  moreover note chain_resolve[of ?W bt, OF refl] chain_resolve_again[of ?W bt, OF refl]
  ultimately show ?thesis by simp
qed

section \<open>The scene assembler\<close>

subsection \<open>What the operations on values leave unchanged\<close>

lemma refs_only_refl [simp]: "refs_only w w"
  by (simp add: refs_only_def)


lemma refs_only_tw:
  "refs_only w w' \<Longrightarrow> refs_only (w\<lparr>texture_warnings := tw\<rparr>) (w'\<lparr>texture_warnings := tw\<rparr>)"
  by (auto simp: refs_only_def)




lemma plain_tw [simp]:
  "obj_items (w\<lparr>texture_warnings := tw\<rparr>) i = obj_items w i"
  "len_plain (w\<lparr>texture_warnings := tw\<rparr>) v = len_plain w v"
  "index_plain (w\<lparr>texture_warnings := tw\<rparr>) v k = index_plain w v k"
  "key_plain (w\<lparr>texture_warnings := tw\<rparr>) v key = key_plain w v key"
  "frags_value (w\<lparr>texture_warnings := tw\<rparr>) i = frags_value w i"
  "names_value (w\<lparr>texture_warnings := tw\<rparr>) nm = names_value w nm"
  "attr_value (w\<lparr>texture_warnings := tw\<rparr>) v = attr_value w v"
  "set_ref_value (w\<lparr>texture_warnings := tw\<rparr>) a v = (set_ref_value w a v)\<lparr>texture_warnings := tw\<rparr>"
  by (simp_all add: obj_items_def len_plain_def index_plain_def key_plain_def frags_value_def
      names_value_def attr_value_def set_ref_value_def cong: pyval.case_cong option.case_cong)











subsection \<open>What the parts of a run leave unchanged\<close>



























subsection \<open>The fallback of \<open>convertZone\<close>\<close>






lemma index_plain_not_None: "index_plain w v k = Inr x \<Longrightarrow> v \<noteq> PNone"
  by (auto simp: index_plain_def)






lemma texture_warnings_warn:
  "texture_warnings (warn w key) =
     (texture_warnings w)(key \<mapsto> (case texture_warnings w key of None \<Rightarrow> 0 | Some c \<Rightarrow> c) + 1)"
  by (simp add: warn_def)


subsection \<open>An out-of-range run\<close>



























section \<open>Texture-reference flags\<close>


section \<open>Object-placement rotation\<close>

lemma f32_real_512: "f32_real 0x44000000 = 512"
proof -
  have "(2::real) powr (136 - 150) = 1 / 2 ^ 14"
    by (simp add: powr_minus_divide powr_realpow [symmetric])
  then show ?thesis
    by (simp add: f32_real_def Let_def bit_iff_odd drop_bit_eq_div)
qed

lemma f32_real_0: "f32_real 0 = 0"
  by (simp add: f32_real_def)

text \<open>
  A placement record whose rotation fields are the floats 512.0, 0.0 and 0.0 (bit
  patterns \<open>0x44000000\<close>, \<open>0\<close>, \<open>0\<close>), position and scale zero, in an otherwise empty
  decoder.
\<close>

definition objloc_record :: "byte list" where
  "objloc_record =
     [0,0,0,0, 0,0,0,0, 0,0,0,0,
      0,0,0,0, 0,0,0,0, 0,0,0,0,
      0,0,0,0x44, 0,0,0,0, 0,0,0,0,
      0,0,0,0, 0,0,0,0, 0,0,0,0,
      0,0,0,0, 0,0,0,0]"

definition objloc_wld :: wld where
  "objloc_wld = empty_wld\<lparr>buf := Buffer objloc_record\<rparr>"

lemma objloc_record_rot:
  "frag_objloc objloc_wld = Inr (PDict [(''position'', PTuple [PFloat (F32 0), PFloat (F32 0), PFloat (F32 0)]),
       (''rotation'', objloc_rotation (0x44000000, 0, 0)),
       (''scale'', PTuple [PInt 1, PInt 1, PInt 1]),
       (''nameoff'', PInt 0)], objloc_wld\<lparr>buf := \<lparr>data = objloc_record, pos = 56\<rparr>\<rparr>)"
  by (simp add: frag_objloc_def objloc_wld_def empty_wld_def objloc_record_def rd_def run2_def run3_def
      uint_b_def int_b_def float_b_def read_def Buffer_def signed_of_def f32_real_0)

text \<open>
  C7 as stated: rotation units \<open>(512, 0, 0)\<close> decode to \<open>(0, 0, \<pi>)\<close>. The code
  maps 512 units to a full turn, so the third component is \<open>2\<pi>\<close>, not \<open>\<pi>\<close>.
\<close>

theorem objloc_rotation_not_pi:
  "rotation_radians (objloc_rotation (0x44000000, 0, 0)) \<noteq> [0, 0, pi]"
proof -
  have "2 * pi \<noteq> pi"
    using pi_gt_zero by simp
  then show ?thesis
    by (simp add: rotation_radians_def objloc_rotation_def objloc_angle_def f32_real_512 f32_real_0)
qed

text \<open>
  C7 amended: rotation units \<open>(512, 0, 0)\<close> decode, under the axis remap (third,
  second, first) and the scale 512 units = 360 degrees, to \<open>(0, 0, 2\<pi>)\<close>: the
  handler returns the rotation \<open>objloc_rotation (512.0, 0.0, 0.0)\<close> for the record
  above, and its value in radians is \<open>(0, 0, 2\<pi>)\<close>.
\<close>

theorem objloc_rotation_full_turn:
  "(\<exists>kvs w'. frag_objloc objloc_wld = Inr (PDict kvs, w')
       \<and> map_of kvs ''rotation'' = Some (objloc_rotation (0x44000000, 0, 0)))
   \<and> f32_real 0x44000000 = 512 \<and> f32_real 0 = 0
   \<and> rotation_radians (objloc_rotation (0x44000000, 0, 0)) = [0, 0, 2 * pi]"
proof -
  have "rotation_radians (objloc_rotation (0x44000000, 0, 0)) = [0, 0, 2 * pi]"
    by (simp add: rotation_radians_def objloc_rotation_def objloc_angle_def f32_real_512 f32_real_0)
  then show ?thesis
    using objloc_record_rot f32_real_512 f32_real_0 by simp
qed

end
